theory Spec2Isabelle
  imports Complex_Main "HOL-Library.Word"
begin

section \<open>JavaScript values, blobs and results\<close>

text \<open>
  The client keeps its settings in plain objects that are merged with the spread
  operator and passed on untyped. Such objects are maps from property names to
  values; a property that is absent reads as \<open>undefined\<close>.
\<close>

datatype jsval =
    JUndefined
  | JNull
  | JBool bool
  | JNum real
  | JNaN
  | JStr string
  | JArr "jsval list"

type_synonym jsobj = "string \<rightharpoonup> jsval"

definition js_get :: "jsobj \<Rightarrow> string \<Rightarrow> jsval" where
  "js_get obj k = (case obj k of None \<Rightarrow> JUndefined | Some v \<Rightarrow> v)"

fun truthy :: "jsval \<Rightarrow> bool" where
  "truthy JUndefined = False"
| "truthy JNull = False"
| "truthy (JBool b) = b"
| "truthy (JNum n) = (n \<noteq> 0)"
| "truthy JNaN = False"
| "truthy (JStr s) = (s \<noteq> [])"
| "truthy (JArr xs) = True"

text \<open>\<open>{ ...a, ...b }\<close>: the properties of \<open>b\<close> override those of \<open>a\<close>.\<close>

definition spread :: "jsobj \<Rightarrow> jsobj \<Rightarrow> jsobj" where
  "spread a b = a ++ b"

text \<open>
  A \<open>Blob\<close> is its bytes and its MIME type; \<open>size\<close> is the number of bytes. A
  \<open>File\<close> is a blob with a name. \<open>new Blob(parts, {type})\<close> concatenates the parts.
\<close>

record blob =
  blob_data :: "8 word list"
  blob_type :: string

definition blob_size :: "blob \<Rightarrow> nat" where
  "blob_size b = length (blob_data b)"

definition new_Blob :: "blob list \<Rightarrow> string \<Rightarrow> blob" where
  "new_Blob parts ty = \<lparr>blob_data = concat (map blob_data parts), blob_type = ty\<rparr>"

record audio_file =
  file_name :: string
  file_data :: "8 word list"
  file_type :: string

definition file_size :: "audio_file \<Rightarrow> nat" where
  "file_size f = length (file_data f)"

text \<open>
  The modules report failure as an object \<open>{success: false, error, code}\<close>; some
  failures carry no \<open>code\<close>. A result is \<open>Inl\<close> of such a failure or \<open>Inr\<close> of the
  success payload.
\<close>

datatype err_code =
    FILE_VALIDATION_FAILED
  | UPLOAD_FAILED
  | TRANSCRIPTION_FAILED
  | TRANSCRIPTION_TIMEOUT
  | POLLING_FAILED
  | NOT_CONNECTED
  | SEND_FAILED
  | SEND_AUDIO_FAILED
  | MICROPHONE_ACCESS_DENIED
  | AUDIO_ANALYSIS_FAILED
  | RECORDING_START_FAILED
  | RECORDING_STOP_FAILED
  | WEBSOCKET_ERROR
  | CONNECTION_FAILED

record failure =
  code :: "err_code option"
  error :: string
  requestId :: "string option"
  details :: "string option"

definition failed :: "err_code option \<Rightarrow> string \<Rightarrow> failure" where
  "failed c msg = \<lparr>code = c, error = msg, requestId = None, details = None\<rparr>"

text \<open>
  What an \<open>async\<close> function's promise resolves with: a returned value, or
  \<open>undefined\<close> when the body ends without \<open>return\<close>.
\<close>

datatype 'a settled = Undefined | Returned 'a

section \<open>The platform\<close>

text \<open>
  What the browser decides: which exceptions its calls raise (each \<open>Some msg\<close> is
  the message of the exception raised, \<open>None\<close> is no exception), the encoder types
  it supports, the clock, the analyser's current frequency data, the base64 text of
  a blob as \<open>FileReader\<close> produces it (\<open>Inl\<close> when the reader fails), and
  \<open>ToNumber\<close> on values that are not numbers (\<open>None\<close> is \<open>NaN\<close>).
\<close>

record platform =
  ws_origin :: string
  socket_new_error :: "string option"
  socket_send_error :: "string option"
  mic_denied :: "string option"
  getUserMedia_error :: "string option"
  audio_analysis_error :: "string option"
  encoder_new_error :: "string option"
  encoder_start_error :: "string option"
  encoder_stop_error :: "string option"
  isTypeSupported :: "string \<Rightarrow> bool"
  date_now :: nat
  frequency_data :: "8 word list"
  blobToBase64 :: "blob \<Rightarrow> string + string"
  toNumber :: "jsval \<Rightarrow> real option"

section \<open>Utils\<close>

subsection \<open>validateAudioFile\<close>

definition supportedTypes :: "string list" where
  "supportedTypes =
     [''audio/wav'', ''audio/wave'', ''audio/x-wav'',
      ''audio/mpeg'', ''audio/mp3'',
      ''audio/flac'',
      ''audio/m4a'', ''audio/x-m4a'',
      ''audio/webm'',
      ''audio/ogg'']"

definition maxSize :: nat where
  "maxSize = 50 * 1024 * 1024"

datatype validation = Valid | Invalid string

text \<open>
  The size message is built with \<open>formatFileSize(maxSize)\<close>, which for the constant
  50 MB renders as \<open>50.0 MB\<close>.
\<close>

definition validateAudioFile :: "audio_file option \<Rightarrow> validation" where
  "validateAudioFile fo =
     (case fo of
        None \<Rightarrow> Invalid ''No file selected''
      | Some f \<Rightarrow>
          if file_size f > maxSize
          then Invalid ''File too large. Maximum size is 50.0 MB''
          else if file_type f \<notin> set supportedTypes
          then Invalid ''Unsupported file format. Supported formats: MP3, WAV, FLAC, M4A, WebM, OGG''
          else Valid)"

subsection \<open>getAudioLevel\<close>

text \<open>
  The argument is a \<open>Uint8Array\<close> (or null). The squares are summed as JavaScript
  numbers, so nothing wraps; numbers are modelled as reals.
\<close>

definition sum_squares :: "8 word list \<Rightarrow> real" where
  "sum_squares xs = foldl (\<lambda>s x. s + real (unat x) * real (unat x)) 0 xs"

definition getAudioLevel :: "8 word list option \<Rightarrow> real" where
  "getAudioLevel audioData =
     (case audioData of
        None \<Rightarrow> 0
      | Some xs \<Rightarrow>
          if length xs = 0 then 0
          else (let rms = sqrt (sum_squares xs / real (length xs))
                in min 1 (rms * 10)))"

subsection \<open>createEventEmitter\<close>

text \<open>
  A callback runs on the data and on whatever state \<open>'w\<close> it can reach, and either
  returns or throws; both leave a state behind. Callbacks are compared by identity
  (\<open>cb !== callback\<close>), which the model keeps as \<open>cb_id\<close>.

  The emitter is the private \<open>events\<close> object, created as \<open>{}\<close>: its own
  properties map an event name to the array of callbacks, and every other name is
  looked up in \<open>Object.prototype\<close>. The names that \<open>Object.prototype\<close> defines are
  those of the language standard; each of them reads as a function or an object,
  which is truthy and has no \<open>push\<close>, \<open>filter\<close> or \<open>forEach\<close>. An own property
  comes first in the lookup. The methods only ever create own properties at names
  that read as \<open>undefined\<close>.
\<close>

datatype 'w cb_outcome = Returns 'w | Throws 'w

record ('d, 'w) callback =
  cb_id :: nat
  cb_run :: "'d \<Rightarrow> 'w \<Rightarrow> 'w cb_outcome"

type_synonym ('d, 'w) emitter = "string \<rightharpoonup> ('d, 'w) callback list"

definition Object_prototype :: "string list" where
  "Object_prototype =
     [''constructor'', ''hasOwnProperty'', ''isPrototypeOf'', ''propertyIsEnumerable'',
      ''toLocaleString'', ''toString'', ''valueOf'', ''__proto__'',
      ''__defineGetter__'', ''__defineSetter__'', ''__lookupGetter__'', ''__lookupSetter__'']"

datatype 'c property = NotFound | Inherited | Own "'c list"

definition get_property :: "('d, 'w) emitter \<Rightarrow> string \<Rightarrow> ('d, 'w) callback property" where
  "get_property events event =
     (case events event of
        Some cbs \<Rightarrow> Own cbs
      | None \<Rightarrow> if event \<in> set Object_prototype then Inherited else NotFound)"

datatype js_error = TypeError

text \<open>
  \<open>on\<close>: \<open>if (!events[event]) events[event] = []; events[event].push(callback)\<close>.
  At an inherited name the test fails, no array is made, and calling the missing
  \<open>push\<close> raises. \<open>off\<close> and \<open>emit\<close> pass their test in the same way and raise on
  the missing \<open>filter\<close> and \<open>forEach\<close>.
\<close>

definition on ::
  "('d, 'w) emitter \<Rightarrow> string \<Rightarrow> ('d, 'w) callback \<Rightarrow> js_error + ('d, 'w) emitter" where
  "on events event cb =
     (case get_property events event of
        NotFound \<Rightarrow> Inr (events(event \<mapsto> [] @ [cb]))
      | Own cbs \<Rightarrow> Inr (events(event \<mapsto> cbs @ [cb]))
      | Inherited \<Rightarrow> Inl TypeError)"

definition off ::
  "('d, 'w) emitter \<Rightarrow> string \<Rightarrow> ('d, 'w) callback \<Rightarrow> js_error + ('d, 'w) emitter" where
  "off events event cb =
     (case get_property events event of
        NotFound \<Rightarrow> Inr events
      | Own cbs \<Rightarrow> Inr (events(event \<mapsto> filter (\<lambda>c. cb_id c \<noteq> cb_id cb) cbs))
      | Inherited \<Rightarrow> Inl TypeError)"

text \<open>
  \<open>forEach\<close> with the \<open>try/catch\<close> around each call. The result is the state after
  the last callback and the log of calls made, in call order: the callback's identity
  and whether it threw (the \<open>catch\<close> only writes to the console). \<open>forEach\<close> visits
  the elements the array had when it started, so a callback that subscribes or
  unsubscribes does not change the current delivery.
\<close>

fun forEach_callback ::
  "('d, 'w) callback list \<Rightarrow> 'd \<Rightarrow> 'w \<Rightarrow> 'w \<times> (nat \<times> bool) list" where
  "forEach_callback [] d w = (w, [])"
| "forEach_callback (c # cs) d w =
     (case cb_run c d w of
        Returns w' \<Rightarrow>
          (case forEach_callback cs d w' of (w'', calls) \<Rightarrow> (w'', (cb_id c, False) # calls))
      | Throws w' \<Rightarrow>
          (case forEach_callback cs d w' of (w'', calls) \<Rightarrow> (w'', (cb_id c, True) # calls)))"

text \<open>
  \<open>emit\<close>: the \<open>TypeError\<close> at an inherited name is raised by \<open>emit\<close> itself,
  outside the \<open>try\<close>, and reaches the caller.
\<close>

definition emit ::
  "('d, 'w) emitter \<Rightarrow> string \<Rightarrow> 'd \<Rightarrow> 'w \<Rightarrow> js_error + 'w \<times> (nat \<times> bool) list" where
  "emit events event d w =
     (case get_property events event of
        NotFound \<Rightarrow> Inr (w, [])
      | Own cbs \<Rightarrow> Inr (forEach_callback cbs d w)
      | Inherited \<Rightarrow> Inl TypeError)"

text \<open>
  The state a call leaves behind, and the state after calling every callback of a
  list in order, each on the state left by the one before.
\<close>

fun state_after :: "'w cb_outcome \<Rightarrow> 'w" where
  "state_after (Returns w) = w"
| "state_after (Throws w) = w"

definition all_called :: "('d, 'w) callback list \<Rightarrow> 'd \<Rightarrow> 'w \<Rightarrow> 'w" where
  "all_called cbs d w = foldl (\<lambda>w c. state_after (cb_run c d w)) w cbs"

text \<open>
  Registering a list of callbacks for one event, one \<open>on\<close> call after the other;
  the first call that raises ends the sequence.
\<close>

fun subscribe_all ::
  "('d, 'w) emitter \<Rightarrow> string \<Rightarrow> ('d, 'w) callback list \<Rightarrow> js_error + ('d, 'w) emitter" where
  "subscribe_all events event [] = Inr events"
| "subscribe_all events event (c # cs) =
     (case on events event c of
        Inl e \<Rightarrow> Inl e
      | Inr events' \<Rightarrow> subscribe_all events' event cs)"

section \<open>FileUploader\<close>

text \<open>
  \<open>uploadSettings\<close> is an untyped object replaced by spreading. The server is the
  environment: its reply to the upload \<open>POST\<close>, and its reply to each status
  \<open>GET\<close> by attempt number (1-based). A reply that throws stands for any exception
  raised in the \<open>try\<close> block (\<open>fetch\<close> rejecting, \<open>response.json()\<close> failing) with
  its message.
\<close>

record FileUploader =
  uploadSettings :: jsobj

definition FileUploader_new :: FileUploader where
  "FileUploader_new =
     \<lparr>uploadSettings =
        [''maxFileSize'' \<mapsto> JNum (50 * 1024 * 1024),
         ''supportedFormats'' \<mapsto> JArr (map JStr
            [''audio/wav'', ''audio/wave'', ''audio/x-wav'',
             ''audio/mpeg'', ''audio/mp3'',
             ''audio/flac'',
             ''audio/m4a'', ''audio/x-m4a'',
             ''audio/webm'',
             ''audio/ogg'']),
         ''endpoint'' \<mapsto> JStr ''/api/transcribe'']\<rparr>"

record upload_options =
  opt_model :: jsval
  opt_language :: jsval
  opt_maxAttempts :: "nat option"
  opt_pollInterval :: "nat option"

datatype upload_reply =
    UploadThrows string
  | UploadNotOk "string option"
  | UploadOk string string

record job =
  job_status :: string
  job_text :: string
  job_language :: string
  job_processing_time :: real
  job_error :: "string option"

datatype poll_reply =
    PollThrows string
  | PollNotOk
  | PollJson job

record accepted =
  acc_requestId :: string
  acc_status :: string

datatype http_request =
    POST jsval audio_file jsval "jsval option"
  | GET jsval string

datatype uploader_event =
    ErrorEvent failure
  | UploadStarted string nat
  | UploadCompleted string string
  | TranscriptionEvent string string real string
  | PollingEvent string nat string

datatype upl_effect = Emit uploader_event | Fetch http_request

definition is_failure_with :: "err_code \<Rightarrow> failure + 'a \<Rightarrow> bool" where
  "is_failure_with c r = (case r of Inl f \<Rightarrow> code f = Some c | Inr x \<Rightarrow> False)"

definition validateFile :: "FileUploader \<Rightarrow> audio_file option \<Rightarrow> validation" where
  "validateFile this fo = validateAudioFile fo"

definition upload_failed :: "string \<Rightarrow> failure" where
  "upload_failed msg = failed (Some UPLOAD_FAILED) (''Upload failed: '' @ msg)"

text \<open>
  \<open>uploadFile\<close>: the result and the effects in the order they happen. The form
  fields are recorded as the values handed to \<open>FormData.append\<close>. Validation
  rejects a missing file, so the \<open>None\<close> case after \<open>Valid\<close> is never reached; there
  the source would raise on \<open>file.name\<close> inside the \<open>try\<close>.
\<close>

definition uploadFile ::
  "FileUploader \<Rightarrow> upload_reply \<Rightarrow> audio_file option \<Rightarrow> upload_options
     \<Rightarrow> (failure + accepted) \<times> upl_effect list" where
  "uploadFile this reply fo options =
     (case validateFile this fo of
        Invalid msg \<Rightarrow>
          (let err = failed (Some FILE_VALIDATION_FAILED) msg
           in (Inl err, [Emit (ErrorEvent err)]))
      | Valid \<Rightarrow>
          (case fo of
             None \<Rightarrow>
               (let errorResult = upload_failed ''Cannot read properties of null''
                in (Inl errorResult, [Emit (ErrorEvent errorResult)]))
           | Some f \<Rightarrow>
               (let model = (if truthy (opt_model options) then opt_model options
                             else JStr ''base'');
                    language = (if truthy (opt_language options)
                                then Some (opt_language options) else None);
                    started = Emit (UploadStarted (file_name f) (file_size f));
                    request = Fetch (POST (js_get (uploadSettings this) ''endpoint'')
                                          f model language)
                in case reply of
                     UploadThrows msg \<Rightarrow>
                       (let errorResult = upload_failed msg
                        in (Inl errorResult, [started, request, Emit (ErrorEvent errorResult)]))
                   | UploadNotOk detail \<Rightarrow>
                       (let msg = (case detail of
                                     None \<Rightarrow> ''Upload failed''
                                   | Some d \<Rightarrow> if d \<noteq> [] then d else ''Upload failed'');
                            errorResult = upload_failed msg
                        in (Inl errorResult, [started, request, Emit (ErrorEvent errorResult)]))
                   | UploadOk rid st \<Rightarrow>
                       (Inr \<lparr>acc_requestId = rid, acc_status = st\<rparr>,
                        [started, request, Emit (UploadCompleted rid st)]))))"

text \<open>
  One run of the \<open>poll\<close> closure of \<open>pollForResult\<close>, after \<open>attempts++\<close>: what this
  run returns, its effects, and whether it has called \<open>setTimeout(poll, pollInterval)\<close>.
  The branch that re-arms the timer has no \<open>return\<close>.
\<close>

definition poll_body ::
  "FileUploader \<Rightarrow> poll_reply \<Rightarrow> string \<Rightarrow> nat \<Rightarrow> nat
     \<Rightarrow> (failure + job) settled \<times> upl_effect list \<times> bool" where
  "poll_body this reply rid maxAttempts attempts =
     (let request = Fetch (GET (js_get (uploadSettings this) ''endpoint'') rid);
          polling_failed = (\<lambda>msg.
            (let errorResult = \<lparr>code = Some POLLING_FAILED,
                                 error = ''Failed to get transcription result'',
                                 requestId = Some rid, details = Some msg\<rparr>
             in (Returned (Inl errorResult), [request, Emit (ErrorEvent errorResult)], False)))
      in case reply of
           PollThrows msg \<Rightarrow> polling_failed msg
         | PollNotOk \<Rightarrow> polling_failed ''Failed to get transcription result''
         | PollJson result \<Rightarrow>
             if job_status result = ''completed'' then
               (Returned (Inr result),
                [request, Emit (TranscriptionEvent (job_text result) (job_language result)
                                  (job_processing_time result) rid)],
                False)
             else if job_status result = ''failed'' then
               (let err = \<lparr>code = Some TRANSCRIPTION_FAILED,
                            error = (case job_error result of
                                       None \<Rightarrow> ''Transcription failed''
                                     | Some m \<Rightarrow> if m \<noteq> [] then m else ''Transcription failed''),
                            requestId = Some rid, details = None\<rparr>
                in (Returned (Inl err), [request, Emit (ErrorEvent err)], False))
             else if attempts < maxAttempts then
               (Undefined, [request, Emit (PollingEvent rid attempts (job_status result))], True)
             else
               (let err = \<lparr>code = Some TRANSCRIPTION_TIMEOUT,
                            error = ''Transcription timeout'',
                            requestId = Some rid, details = None\<rparr>
                in (Returned (Inl err), [request, Emit (ErrorEvent err)], False)))"

text \<open>
  The \<open>poll\<close> closure with its timer chain. \<open>attempts\<close> is the shared counter before
  this run. The first component is what this run of \<open>poll\<close> returns; the effects are
  those of this run followed by those of the runs the timer starts later. What a
  timer-started run returns goes to \<open>setTimeout\<close> and is dropped.
\<close>

function poll ::
  "FileUploader \<Rightarrow> (nat \<Rightarrow> poll_reply) \<Rightarrow> string \<Rightarrow> nat \<Rightarrow> nat
     \<Rightarrow> (failure + job) settled \<times> upl_effect list" where
  "poll this server rid maxAttempts attempts =
     (case poll_body this (server (Suc attempts)) rid maxAttempts (Suc attempts) of
        (returned, effects, again) \<Rightarrow>
          (returned,
           effects @ (if again then snd (poll this server rid maxAttempts (Suc attempts))
                      else [])))"
  by pat_completeness auto
termination
  apply (relation "measure (\<lambda>(this, server, rid, maxAttempts, attempts). maxAttempts - attempts)")
   apply simp
  apply (simp add: poll_body_def Let_def split: poll_reply.splits if_splits)
  done

declare poll.simps [simp del]

text \<open>\<open>options.maxAttempts || 60\<close>; \<open>pollForResult\<close> returns the first run of \<open>poll\<close>.\<close>

definition pollForResult ::
  "FileUploader \<Rightarrow> (nat \<Rightarrow> poll_reply) \<Rightarrow> string \<Rightarrow> upload_options
     \<Rightarrow> (failure + job) settled \<times> upl_effect list" where
  "pollForResult this server rid options =
     (let maxAttempts = (case opt_maxAttempts options of
                           None \<Rightarrow> 60
                         | Some n \<Rightarrow> if n \<noteq> 0 then n else 60)
      in poll this server rid maxAttempts 0)"

definition uploadAndWaitForResult ::
  "FileUploader \<Rightarrow> upload_reply \<Rightarrow> (nat \<Rightarrow> poll_reply) \<Rightarrow> audio_file option
     \<Rightarrow> upload_options \<Rightarrow> (failure + job) settled \<times> upl_effect list" where
  "uploadAndWaitForResult this reply server fo options =
     (case uploadFile this reply fo options of
        (Inl uploadResult, effects) \<Rightarrow> (Returned (Inl uploadResult), effects)
      | (Inr uploadResult, effects) \<Rightarrow>
          (case pollForResult this server (acc_requestId uploadResult) options of
             (returned, effects') \<Rightarrow> (returned, effects @ effects')))"

definition createFileFromBlob :: "blob \<Rightarrow> string \<Rightarrow> string \<Rightarrow> audio_file" where
  "createFileFromBlob b filename ty =
     \<lparr>file_name = filename, file_data = blob_data b, file_type = ty\<rparr>"

definition updateUploadSettings :: "FileUploader \<Rightarrow> jsobj \<Rightarrow> FileUploader" where
  "updateUploadSettings this settings =
     this\<lparr>uploadSettings := spread (uploadSettings this) settings\<rparr>"

definition getUploadSettings :: "FileUploader \<Rightarrow> jsobj" where
  "getUploadSettings this = uploadSettings this"

text \<open>The upload requests among a list of effects.\<close>

definition uploads :: "upl_effect list \<Rightarrow> http_request list" where
  "uploads effects =
     concat (map (\<lambda>e. case e of Fetch (POST u f m l) \<Rightarrow> [POST u f m l] | _ \<Rightarrow> []) effects)"

definition fetches :: "upl_effect list \<Rightarrow> http_request list" where
  "fetches effects = concat (map (\<lambda>e. case e of Fetch r \<Rightarrow> [r] | _ \<Rightarrow> []) effects)"

section \<open>WebSocketClient\<close>

record connectionSettings =
  reconnectAttempts :: nat
  reconnectDelay :: real
  reconnectBackoff :: real
  keepAliveInterval :: real

text \<open>
  \<open>ws_websocket\<close> is the socket object (its URL) or null; \<open>keepAliveTimer\<close> is
  whether an interval handle is stored.
\<close>

record WebSocketClient =
  ws_websocket :: "string option"
  ws_isConnected :: bool
  ws_connectionSettings :: connectionSettings
  currentAttempt :: nat
  keepAliveTimer :: bool

definition WebSocketClient_new :: WebSocketClient where
  "WebSocketClient_new =
     \<lparr>ws_websocket = None, ws_isConnected = False,
      ws_connectionSettings =
        \<lparr>reconnectAttempts = 5, reconnectDelay = 1000, reconnectBackoff = 2,
         keepAliveInterval = 30000\<rparr>,
      currentAttempt = 0, keepAliveTimer = False\<rparr>"

datatype message =
    Config jsval jsval
  | Audio string string jsval jsval
  | Ping nat

datatype ws_event =
    Connected
  | Disconnected int string
  | Reconnecting nat real
  | WsError failure

datatype ws_effect =
    WsEmit ws_event
  | Transmit message
  | SetTimeout real
  | NewWebSocket string
  | SocketClose int string
  | SetInterval real
  | ClearInterval

definition startKeepAlive :: "WebSocketClient \<Rightarrow> WebSocketClient \<times> ws_effect list" where
  "startKeepAlive this =
     (this\<lparr>keepAliveTimer := True\<rparr>,
      (if keepAliveTimer this then [ClearInterval] else [])
        @ [SetInterval (keepAliveInterval (ws_connectionSettings this))])"

definition stopKeepAlive :: "WebSocketClient \<Rightarrow> WebSocketClient \<times> ws_effect list" where
  "stopKeepAlive this =
     (if keepAliveTimer this then (this\<lparr>keepAliveTimer := False\<rparr>, [ClearInterval])
      else (this, []))"

definition connect ::
  "platform \<Rightarrow> WebSocketClient \<Rightarrow> string
     \<Rightarrow> (failure + unit) \<times> WebSocketClient \<times> ws_effect list" where
  "connect pf this endpoint =
     (let wsUrl = ws_origin pf @ endpoint
      in case socket_new_error pf of
           Some msg \<Rightarrow>
             (Inl (failed (Some CONNECTION_FAILED) ''Failed to connect to server''), this, [])
         | None \<Rightarrow> (Inr (), this\<lparr>ws_websocket := Some wsUrl\<rparr>, [NewWebSocket wsUrl]))"

definition onopen :: "WebSocketClient \<Rightarrow> WebSocketClient \<times> ws_effect list" where
  "onopen this =
     (case startKeepAlive (this\<lparr>ws_isConnected := True, currentAttempt := 0\<rparr>) of
        (this', effects) \<Rightarrow> (this', WsEmit Connected # effects))"

definition shouldReconnect :: "WebSocketClient \<Rightarrow> bool" where
  "shouldReconnect this =
     (currentAttempt this < reconnectAttempts (ws_connectionSettings this))"

text \<open>
  \<open>scheduleReconnect\<close>: the counter is incremented first, so the exponent
  \<open>currentAttempt - 1\<close> is never negative.
\<close>

definition scheduleReconnect :: "WebSocketClient \<Rightarrow> WebSocketClient \<times> ws_effect list" where
  "scheduleReconnect this =
     (let this' = this\<lparr>currentAttempt := currentAttempt this + 1\<rparr>;
          delay = reconnectDelay (ws_connectionSettings this')
                    * reconnectBackoff (ws_connectionSettings this') ^ (currentAttempt this' - 1)
      in (this', [WsEmit (Reconnecting (currentAttempt this') delay), SetTimeout delay]))"

definition onclose ::
  "WebSocketClient \<Rightarrow> int \<Rightarrow> string \<Rightarrow> WebSocketClient \<times> ws_effect list" where
  "onclose this cd reason =
     (case stopKeepAlive (this\<lparr>ws_isConnected := False\<rparr>) of
        (this1, effects1) \<Rightarrow>
          (let effects2 = effects1 @ [WsEmit (Disconnected cd reason)]
           in if cd \<noteq> 1000 \<and> shouldReconnect this1
              then (case scheduleReconnect this1 of
                      (this2, effects3) \<Rightarrow> (this2, effects2 @ effects3))
              else (this1, effects2)))"

definition onerror :: "WebSocketClient \<Rightarrow> WebSocketClient \<times> ws_effect list" where
  "onerror this =
     (this, [WsEmit (WsError (failed (Some WEBSOCKET_ERROR) ''WebSocket connection failed''))])"

text \<open>The callback that \<open>scheduleReconnect\<close> hands to \<open>setTimeout\<close>.\<close>

definition reconnect_timer ::
  "platform \<Rightarrow> WebSocketClient \<Rightarrow> WebSocketClient \<times> ws_effect list" where
  "reconnect_timer pf this =
     (if \<not> ws_isConnected this
      then (case connect pf this ''/ws/transcribe'' of (r, this', effects) \<Rightarrow> (this', effects))
      else (this, []))"

definition disconnect :: "WebSocketClient \<Rightarrow> WebSocketClient \<times> ws_effect list" where
  "disconnect this =
     (case (if ws_websocket this \<noteq> None
            then (case stopKeepAlive this of
                    (this1, effects) \<Rightarrow>
                      (this1\<lparr>ws_websocket := None\<rparr>,
                       effects @ [SocketClose 1000 ''Client disconnect'']))
            else (this, [])) of
        (this2, effects) \<Rightarrow> (this2\<lparr>ws_isConnected := False\<rparr>, effects))"

definition send ::
  "platform \<Rightarrow> WebSocketClient \<Rightarrow> message \<Rightarrow> (failure + unit) \<times> ws_effect list" where
  "send pf this msg =
     (if \<not> ws_isConnected this \<or> ws_websocket this = None
      then (Inl (failed (Some NOT_CONNECTED) ''Not connected to server''), [])
      else (case socket_send_error pf of
              None \<Rightarrow> (Inr (), [Transmit msg])
            | Some m \<Rightarrow>
                (Inl (failed (Some SEND_FAILED) (''Failed to send message: '' @ m)), [])))"

definition sendConfig ::
  "platform \<Rightarrow> WebSocketClient \<Rightarrow> jsval \<Rightarrow> jsval \<Rightarrow> (failure + unit) \<times> ws_effect list" where
  "sendConfig pf this model language = send pf this (Config model language)"

definition sendAudio ::
  "platform \<Rightarrow> WebSocketClient \<Rightarrow> string \<Rightarrow> string \<Rightarrow> jsval \<Rightarrow> jsval
     \<Rightarrow> (failure + unit) \<times> ws_effect list" where
  "sendAudio pf this audioData format model language =
     send pf this (Audio audioData format model language)"

text \<open>
  The socket's callbacks as inputs, and runs of the client over a list of them. An
  attempt that fails shows up as the socket's \<open>close\<close> event with a code other
  than 1000, after which the pending timer (if one was set) fires.
\<close>

datatype ws_input = Open | Close int string | SocketError | ReconnectTimer

fun ws_step ::
  "platform \<Rightarrow> WebSocketClient \<Rightarrow> ws_input \<Rightarrow> WebSocketClient \<times> ws_effect list" where
  "ws_step pf this Open = onopen this"
| "ws_step pf this (Close cd reason) = onclose this cd reason"
| "ws_step pf this SocketError = onerror this"
| "ws_step pf this ReconnectTimer = reconnect_timer pf this"

fun ws_run ::
  "platform \<Rightarrow> WebSocketClient \<Rightarrow> ws_input list \<Rightarrow> WebSocketClient \<times> ws_effect list" where
  "ws_run pf this [] = (this, [])"
| "ws_run pf this (i # inputs) =
     (case ws_step pf this i of
        (this1, effects1) \<Rightarrow>
          (case ws_run pf this1 inputs of
             (this2, effects2) \<Rightarrow> (this2, effects1 @ effects2)))"

definition delay_formula :: "connectionSettings \<Rightarrow> nat \<Rightarrow> real" where
  "delay_formula cs n = reconnectDelay cs * reconnectBackoff cs ^ (n - 1)"

definition failed_attempts :: "nat \<Rightarrow> ws_input list" where
  "failed_attempts k = concat (replicate k [Close 1006 [], ReconnectTimer])"

definition scheduled_delays :: "ws_effect list \<Rightarrow> real list" where
  "scheduled_delays effects =
     concat (map (\<lambda>e. case e of SetTimeout d \<Rightarrow> [d] | _ \<Rightarrow> []) effects)"

section \<open>AudioRecorder\<close>

record MediaRecorder =
  mimeType :: string

text \<open>
  Handles (\<open>audioStream\<close>, \<open>audioContext\<close>, \<open>analyser\<close>, \<open>animationFrame\<close>) are
  modelled by whether they are set.
\<close>

record AudioRecorder =
  mediaRecorder :: "MediaRecorder option"
  audioStream :: bool
  audioContext :: bool
  analyser :: bool
  dataArray :: "8 word list option"
  animationFrame :: bool
  rec_isRecording :: bool
  recordedChunks :: "blob list"
  recordingStartTime :: "nat option"

definition AudioRecorder_new :: AudioRecorder where
  "AudioRecorder_new =
     \<lparr>mediaRecorder = None, audioStream = False, audioContext = False, analyser = False,
      dataArray = None, animationFrame = False, rec_isRecording = False,
      recordedChunks = [], recordingStartTime = None\<rparr>"

record rec_options =
  timeslice :: "nat option"
  bitsPerSecond :: "nat option"

datatype rec_event =
    MicrophoneReady
  | AudioLevel real
  | AudioData blob nat
  | RecordingStarted
  | RecordingStopped "blob list" nat
  | RecError failure

datatype rec_effect =
    RecEmit rec_event
  | GetUserMedia
  | EncoderNew string nat
  | EncoderStart "nat option"
  | EncoderStop
  | RequestAnimationFrame

text \<open>
  \<open>getByteFrequencyData\<close> overwrites the array in place with the analyser's
  data; the array keeps its length.
\<close>

definition getByteFrequencyData :: "platform \<Rightarrow> 8 word list \<Rightarrow> 8 word list" where
  "getByteFrequencyData pf arr =
     take (length arr) (frequency_data pf) @ drop (length (frequency_data pf)) arr"

definition updateAudioLevel ::
  "platform \<Rightarrow> AudioRecorder \<Rightarrow> AudioRecorder \<times> rec_effect list" where
  "updateAudioLevel pf this =
     (case dataArray this of
        None \<Rightarrow> (this, [])
      | Some arr \<Rightarrow>
          if \<not> analyser this then (this, [])
          else (let arr' = getByteFrequencyData pf arr;
                    level = getAudioLevel (Some arr');
                    this1 = this\<lparr>dataArray := Some arr'\<rparr>
                in if rec_isRecording this1 \<or> audioStream this1
                   then (this1\<lparr>animationFrame := True\<rparr>,
                         [RecEmit (AudioLevel level), RequestAnimationFrame])
                   else (this1, [RecEmit (AudioLevel level)])))"

text \<open>
  \<open>setupAudioAnalysis\<close>: \<open>fftSize = 256\<close> gives 128 frequency bins. An exception
  is taken to come from creating the audio context, before any field is set.
\<close>

definition setupAudioAnalysis ::
  "platform \<Rightarrow> AudioRecorder \<Rightarrow> AudioRecorder \<times> rec_effect list" where
  "setupAudioAnalysis pf this =
     (if \<not> audioStream this then (this, [])
      else (case audio_analysis_error pf of
              Some msg \<Rightarrow>
                (this, [RecEmit (RecError (failed (Some AUDIO_ANALYSIS_FAILED) msg))])
            | None \<Rightarrow>
                updateAudioLevel pf
                  (this\<lparr>audioContext := True, analyser := True,
                         dataArray := Some (replicate 128 0)\<rparr>)))"

text \<open>
  \<open>requestMicrophoneAccess\<close>: \<open>Utils.requestMicrophonePermission\<close> probes with a
  \<open>getUserMedia\<close> call of its own before the stream is requested.
\<close>

definition requestMicrophoneAccess ::
  "platform \<Rightarrow> AudioRecorder \<Rightarrow> (failure + unit) \<times> AudioRecorder \<times> rec_effect list" where
  "requestMicrophoneAccess pf this =
     (let access_denied = (\<lambda>msg effects.
            (let errorResult = failed (Some MICROPHONE_ACCESS_DENIED) msg
             in (Inl errorResult, this, effects @ [RecEmit (RecError errorResult)])))
      in case mic_denied pf of
           Some e \<Rightarrow>
             access_denied (if e \<noteq> [] then e else ''Microphone access denied'') [GetUserMedia]
         | None \<Rightarrow>
             (case getUserMedia_error pf of
                Some msg \<Rightarrow> access_denied msg [GetUserMedia, GetUserMedia]
              | None \<Rightarrow>
                  (case setupAudioAnalysis pf (this\<lparr>audioStream := True\<rparr>) of
                     (this1, effects) \<Rightarrow>
                       (Inr (), this1,
                        GetUserMedia # GetUserMedia # effects @ [RecEmit MicrophoneReady]))))"

definition mime_preferences :: "string list" where
  "mime_preferences =
     [''audio/webm;codecs=opus'',
      ''audio/webm'',
      ''audio/ogg;codecs=opus'',
      ''audio/ogg'',
      ''audio/wav'',
      ''audio/mp4'']"

definition getSupportedMimeType :: "platform \<Rightarrow> string" where
  "getSupportedMimeType pf =
     (case find (isTypeSupported pf) mime_preferences of
        Some ty \<Rightarrow> ty
      | None \<Rightarrow> ''audio/webm'')"

text \<open>
  \<open>startRecording\<close>. Inside the \<open>try\<close>, an exception before the encoder object
  is stored (\<open>encoder_new_error\<close>) leaves the state as it was; one raised by
  \<open>start\<close> finds \<open>mediaRecorder\<close> and \<open>recordedChunks\<close> already replaced. The
  encoder reports the MIME type it was created with.
\<close>

definition recording_start_failed :: "string \<Rightarrow> failure" where
  "recording_start_failed msg =
     failed (Some RECORDING_START_FAILED) (''Failed to start recording: '' @ msg)"

definition startRecording ::
  "platform \<Rightarrow> AudioRecorder \<Rightarrow> rec_options
     \<Rightarrow> (failure + unit) \<times> AudioRecorder \<times> rec_effect list" where
  "startRecording pf this options =
     (if rec_isRecording this
      then (Inl (failed None ''Already recording''), this, [])
      else
        (case (if \<not> audioStream this then requestMicrophoneAccess pf this
               else (Inr (), this, [])) of
           (Inl accessResult, this1, effects1) \<Rightarrow> (Inl accessResult, this1, effects1)
         | (Inr u, this1, effects1) \<Rightarrow>
             (case encoder_new_error pf of
                Some msg \<Rightarrow> (Inl (recording_start_failed msg), this1, effects1)
              | None \<Rightarrow>
                  (let ty = getSupportedMimeType pf;
                       bits = (case bitsPerSecond options of
                                 None \<Rightarrow> 128000
                               | Some b \<Rightarrow> if b \<noteq> 0 then b else 128000);
                       this2 = this1\<lparr>mediaRecorder := Some \<lparr>mimeType = ty\<rparr>,
                                      recordedChunks := []\<rparr>;
                       slice = (case timeslice options of
                                  None \<Rightarrow> None
                                | Some t \<Rightarrow> if t \<noteq> 0 then Some t else None)
                   in case encoder_start_error pf of
                        Some msg \<Rightarrow>
                          (Inl (recording_start_failed msg), this2,
                           effects1 @ [EncoderNew ty bits])
                      | None \<Rightarrow>
                          (Inr (),
                           this2\<lparr>rec_isRecording := True,
                                 recordingStartTime := Some (date_now pf)\<rparr>,
                           effects1 @ [EncoderNew ty bits, EncoderStart slice,
                                       RecEmit RecordingStarted])))))"

text \<open>The encoder's \<open>dataavailable\<close> event; \<open>None\<close> is an event without data.\<close>

definition ondataavailable ::
  "AudioRecorder \<Rightarrow> blob option \<Rightarrow> AudioRecorder \<times> rec_effect list" where
  "ondataavailable this data =
     (case data of
        None \<Rightarrow> (this, [])
      | Some d \<Rightarrow>
          if blob_size d > 0
          then (let this' = this\<lparr>recordedChunks := recordedChunks this @ [d]\<rparr>
                in (this', [RecEmit (AudioData d (length (recordedChunks this')))]))
          else (this, []))"

definition getRecordingDuration :: "platform \<Rightarrow> AudioRecorder \<Rightarrow> nat" where
  "getRecordingDuration pf this =
     (case recordingStartTime this of
        None \<Rightarrow> 0
      | Some t \<Rightarrow> if t \<noteq> 0 then date_now pf - t else 0)"

definition onstop :: "platform \<Rightarrow> AudioRecorder \<Rightarrow> AudioRecorder \<times> rec_effect list" where
  "onstop pf this =
     (this, [RecEmit (RecordingStopped (recordedChunks this) (getRecordingDuration pf this))])"

definition stopRecording ::
  "platform \<Rightarrow> AudioRecorder \<Rightarrow> (failure + unit) \<times> AudioRecorder \<times> rec_effect list" where
  "stopRecording pf this =
     (if \<not> rec_isRecording this \<or> mediaRecorder this = None
      then (Inl (failed None ''Not recording''), this, [])
      else (case encoder_stop_error pf of
              None \<Rightarrow> (Inr (), this\<lparr>rec_isRecording := False\<rparr>, [EncoderStop])
            | Some msg \<Rightarrow>
                (Inl (failed (Some RECORDING_STOP_FAILED)
                        (''Failed to stop recording: '' @ msg)),
                 this\<lparr>rec_isRecording := False\<rparr>, [])))"

definition getRecordingBlob :: "AudioRecorder \<Rightarrow> blob option" where
  "getRecordingBlob this =
     (if length (recordedChunks this) = 0 then None
      else Some (new_Blob (recordedChunks this)
                   (case mediaRecorder this of
                      Some mr \<Rightarrow> mimeType mr
                    | None \<Rightarrow> ''audio/webm'')))"

section \<open>AudioClientV2\<close>

text \<open>\<open>String.prototype.includes\<close> (as \<open>str_includes\<close>), and the decimal text of a number in a template.\<close>

fun str_includes :: "string \<Rightarrow> string \<Rightarrow> bool" where
  "str_includes [] sub = (sub = [])"
| "str_includes (c # cs) sub = (take (length sub) (c # cs) = sub \<or> str_includes cs sub)"

fun decimal :: "nat \<Rightarrow> string" where
  "decimal n =
     (if n < 10 then [''0123456789'' ! n]
      else decimal (n div 10) @ [''0123456789'' ! (n mod 10)])"

declare decimal.simps [simp del]

definition getFormatFromMimeType :: "string \<Rightarrow> string" where
  "getFormatFromMimeType mt =
     (if str_includes mt ''webm'' then ''webm''
      else if str_includes mt ''ogg'' then ''ogg''
      else if str_includes mt ''wav'' then ''wav''
      else if str_includes mt ''mp4'' then ''mp4''
      else ''webm'')"

text \<open>\<open>v * k\<close> for a number \<open>k\<close>: \<open>v\<close> is converted with \<open>ToNumber\<close> first.\<close>

definition js_times :: "platform \<Rightarrow> jsval \<Rightarrow> real \<Rightarrow> jsval" where
  "js_times pf v k =
     (case v of
        JNum n \<Rightarrow> JNum (n * k)
      | JNaN \<Rightarrow> JNaN
      | _ \<Rightarrow> (case toNumber pf v of Some n \<Rightarrow> JNum (n * k) | None \<Rightarrow> JNaN))"

record AudioClientV2 =
  recorder :: AudioRecorder
  websocket :: WebSocketClient
  uploader :: FileUploader
  settings :: jsobj
  isRecording :: bool
  isConnected :: bool

definition AudioClientV2_new :: AudioClientV2 where
  "AudioClientV2_new =
     \<lparr>recorder = AudioRecorder_new, websocket = WebSocketClient_new,
      uploader = FileUploader_new,
      settings = [''model'' \<mapsto> JStr ''base'', ''language'' \<mapsto> JNull,
                  ''recordingMode'' \<mapsto> JStr ''streaming'', ''autoSend'' \<mapsto> JBool True],
      isRecording = False, isConnected = False\<rparr>"

datatype client_event =
    CError failure
  | CRecordingStopped
  | CSettingsUpdated jsobj
  | CUploadStarted string nat
  | CUploadCompleted string string
  | CTranscription string string real string

fun event_name :: "client_event \<Rightarrow> string" where
  "event_name (CError f) = ''error''"
| "event_name CRecordingStopped = ''recordingStopped''"
| "event_name (CSettingsUpdated s) = ''settingsUpdated''"
| "event_name (CUploadStarted n sz) = ''uploadStarted''"
| "event_name (CUploadCompleted r st) = ''uploadCompleted''"
| "event_name (CTranscription t l p r) = ''transcription''"

datatype client_effect =
    ClientEmit client_event
  | Ws ws_effect
  | Upl upl_effect
  | StorageSet string jsobj

text \<open>
  \<open>setupEventHandling\<close> re-emits the uploader's \<open>uploadStarted\<close>,
  \<open>uploadCompleted\<close>, \<open>transcription\<close> and \<open>error\<close> events on the client; nothing
  listens to \<open>polling\<close>.
\<close>

fun forward_uploader :: "upl_effect \<Rightarrow> client_effect list" where
  "forward_uploader (Emit (ErrorEvent f)) = [Upl (Emit (ErrorEvent f)), ClientEmit (CError f)]"
| "forward_uploader (Emit (UploadStarted n sz)) =
     [Upl (Emit (UploadStarted n sz)), ClientEmit (CUploadStarted n sz)]"
| "forward_uploader (Emit (UploadCompleted r st)) =
     [Upl (Emit (UploadCompleted r st)), ClientEmit (CUploadCompleted r st)]"
| "forward_uploader (Emit (TranscriptionEvent t l p r)) =
     [Upl (Emit (TranscriptionEvent t l p r)), ClientEmit (CTranscription t l p r)]"
| "forward_uploader (Emit (PollingEvent r a st)) = [Upl (Emit (PollingEvent r a st))]"
| "forward_uploader (Fetch r) = [Upl (Fetch r)]"

definition v2_sendConfig ::
  "platform \<Rightarrow> AudioClientV2 \<Rightarrow> (failure + unit) \<times> client_effect list" where
  "v2_sendConfig pf this =
     (if \<not> isConnected this then (Inl (failed None ''Not connected''), [])
      else (case sendConfig pf (websocket this)
                   (js_get (settings this) ''model'') (js_get (settings this) ''language'') of
              (r, effects) \<Rightarrow> (r, map Ws effects)))"

definition handleStreamingAudio ::
  "platform \<Rightarrow> AudioClientV2 \<Rightarrow> blob \<Rightarrow> (failure + unit) \<times> client_effect list" where
  "handleStreamingAudio pf this audioBlob =
     (case blobToBase64 pf audioBlob of
        Inl msg \<Rightarrow>
          (Inl (failed None msg),
           [ClientEmit (CError \<lparr>code = Some SEND_AUDIO_FAILED,
                                 error = ''Failed to send streaming audio'',
                                 requestId = None, details = Some msg\<rparr>)])
      | Inr base64Data \<Rightarrow>
          (let format = getFormatFromMimeType
                          (if blob_type audioBlob \<noteq> [] then blob_type audioBlob
                           else getSupportedMimeType pf)
           in case sendAudio pf (websocket this) base64Data format
                     (js_get (settings this) ''model'') (js_get (settings this) ''language'') of
                (r, effects) \<Rightarrow> (r, map Ws effects)))"

datatype batch_result =
    NoBlob
  | ViaWebSocket "failure + unit"
  | ViaUpload "(failure + job) settled"

definition handleBatchRecording ::
  "platform \<Rightarrow> upload_reply \<Rightarrow> (nat \<Rightarrow> poll_reply) \<Rightarrow> AudioClientV2
     \<Rightarrow> batch_result \<times> client_effect list" where
  "handleBatchRecording pf reply server this =
     (case getRecordingBlob (recorder this) of
        None \<Rightarrow> (NoBlob, [])
      | Some audioBlob \<Rightarrow>
          if isConnected this
          then (case handleStreamingAudio pf this audioBlob of
                  (r, effects) \<Rightarrow> (ViaWebSocket r, effects))
          else (let f = createFileFromBlob audioBlob
                          (''recording_'' @ decimal (date_now pf) @ ''.webm'')
                          (blob_type audioBlob)
                in case uploadAndWaitForResult (uploader this) reply server (Some f)
                          \<lparr>opt_model = js_get (settings this) ''model'',
                           opt_language = js_get (settings this) ''language'',
                           opt_maxAttempts = None, opt_pollInterval = None\<rparr> of
                     (r, effects) \<Rightarrow> (ViaUpload r, concat (map forward_uploader effects))))"

text \<open>
  The client's listeners on the recorder's \<open>recordingStopped\<close> and \<open>audioData\<close>
  events. The value of \<open>handleBatchRecording\<close> and of \<open>handleStreamingAudio\<close> is
  not used by the listener.
\<close>

definition on_recordingStopped ::
  "platform \<Rightarrow> upload_reply \<Rightarrow> (nat \<Rightarrow> poll_reply) \<Rightarrow> AudioClientV2 \<Rightarrow> blob list
     \<Rightarrow> AudioClientV2 \<times> client_effect list" where
  "on_recordingStopped pf reply server this chunks =
     (let this1 = this\<lparr>isRecording := False\<rparr>
      in if js_get (settings this1) ''recordingMode'' = JStr ''batch'' \<and> length chunks > 0
         then (this1, ClientEmit CRecordingStopped
                        # snd (handleBatchRecording pf reply server this1))
         else (this1, [ClientEmit CRecordingStopped]))"

definition on_audioData :: "platform \<Rightarrow> AudioClientV2 \<Rightarrow> blob \<Rightarrow> client_effect list" where
  "on_audioData pf this data =
     (if js_get (settings this) ''recordingMode'' = JStr ''streaming''
         \<and> truthy (js_get (settings this) ''autoSend'')
      then snd (handleStreamingAudio pf this data)
      else [])"

text \<open>The encoder's \<open>stop\<close> event as the composed client sees it.\<close>

definition recording_completed ::
  "platform \<Rightarrow> upload_reply \<Rightarrow> (nat \<Rightarrow> poll_reply) \<Rightarrow> AudioClientV2
     \<Rightarrow> AudioClientV2 \<times> client_effect list" where
  "recording_completed pf reply server this =
     on_recordingStopped pf reply server this (recordedChunks (recorder this))"

definition updateSettings ::
  "platform \<Rightarrow> AudioClientV2 \<Rightarrow> jsobj \<Rightarrow> AudioClientV2 \<times> client_effect list" where
  "updateSettings pf this newSettings =
     (let this1 = this\<lparr>settings := spread (settings this) newSettings\<rparr>;
          saved = [StorageSet ''whisper-settings'' (settings this1)];
          this2 = (if truthy (js_get newSettings ''maxFileSize'')
                   then this1\<lparr>uploader := updateUploadSettings (uploader this1)
                            [''maxFileSize'' \<mapsto>
                               js_times pf (js_times pf (js_get newSettings ''maxFileSize'') 1024)
                                 1024]\<rparr>
                   else this1);
          sent = (if isConnected this2 then snd (v2_sendConfig pf this2) else [])
      in (this2, saved @ sent @ [ClientEmit (CSettingsUpdated (settings this2))]))"

definition getSettings :: "AudioClientV2 \<Rightarrow> jsobj" where
  "getSettings this = settings this"

section \<open>AudioClient\<close>

text \<open>
  The older, self-contained client. Its failures are \<open>{message, code}\<close> objects,
  kept here in the \<open>error\<close> field. \<open>v1_websocket\<close> is whether a socket is stored.
\<close>

record AudioClient =
  v1_websocket :: bool
  v1_mediaRecorder :: "MediaRecorder option"
  v1_isRecording :: bool
  v1_isConnected :: bool
  v1_recordedChunks :: "blob list"
  v1_settings :: jsobj

definition v1_send_audio_failed :: client_effect where
  "v1_send_audio_failed =
     ClientEmit (CError (failed (Some SEND_AUDIO_FAILED) ''Failed to send audio data''))"

text \<open>
  \<open>sendAudioChunk\<close>: everything after the guard is inside one \<open>try\<close>, so a failing
  reader, a missing encoder when the blob has no type, and a throwing socket all end
  in the same \<open>error\<close> event.
\<close>

definition v1_sendAudioChunk :: "platform \<Rightarrow> AudioClient \<Rightarrow> blob \<Rightarrow> client_effect list" where
  "v1_sendAudioChunk pf this audioBlob =
     (if \<not> v1_isConnected this \<or> \<not> v1_websocket this then []
      else (case blobToBase64 pf audioBlob of
              Inl msg \<Rightarrow> [v1_send_audio_failed]
            | Inr base64Data \<Rightarrow>
                (case (if blob_type audioBlob \<noteq> [] then Some (blob_type audioBlob)
                       else map_option mimeType (v1_mediaRecorder this)) of
                   None \<Rightarrow> [v1_send_audio_failed]
                 | Some mt \<Rightarrow>
                     (case socket_send_error pf of
                        Some msg \<Rightarrow> [v1_send_audio_failed]
                      | None \<Rightarrow>
                          [Ws (Transmit (Audio base64Data (getFormatFromMimeType mt)
                                           (js_get (v1_settings this) ''model'')
                                           (js_get (v1_settings this) ''language'')))]))))"



text \<open>
  \<open>updateSettings\<close> of the older client. \<open>sendConfig\<close> calls the socket's \<open>send\<close>
  outside any \<open>try\<close>: \<open>Inl\<close> is that exception leaving \<open>updateSettings\<close>, after the
  settings were replaced and saved.
\<close>

definition v1_updateSettings ::
  "platform \<Rightarrow> AudioClient \<Rightarrow> jsobj \<Rightarrow> (string + unit) \<times> AudioClient \<times> client_effect list" where
  "v1_updateSettings pf this newSettings =
     (let this1 = this\<lparr>v1_settings := spread (v1_settings this) newSettings\<rparr>;
          saved = [StorageSet ''whisper-settings'' (v1_settings this1)];
          config = Ws (Transmit (Config (js_get (v1_settings this1) ''model'')
                                        (js_get (v1_settings this1) ''language'')));
          updated = ClientEmit (CSettingsUpdated (v1_settings this1))
      in if v1_isConnected this1 \<and> v1_websocket this1
         then (case socket_send_error pf of
                 Some msg \<Rightarrow> (Inl msg, this1, saved)
               | None \<Rightarrow> (Inr (), this1, saved @ [config, updated]))
         else (Inr (), this1, saved @ [updated]))"

definition v1_getSettings :: "AudioClient \<Rightarrow> jsobj" where
  "v1_getSettings this = v1_settings this"

text \<open>Selections from a list of client effects.\<close>

definition transmitted :: "client_effect list \<Rightarrow> message list" where
  "transmitted effects =
     concat (map (\<lambda>e. case e of Ws (Transmit m) \<Rightarrow> [m] | _ \<Rightarrow> []) effects)"

definition upload_requests :: "client_effect list \<Rightarrow> http_request list" where
  "upload_requests effects =
     concat (map (\<lambda>e. case e of Upl (Fetch (POST u f m l)) \<Rightarrow> [POST u f m l] | _ \<Rightarrow> [])
               effects)"

definition emitted :: "client_effect list \<Rightarrow> string list" where
  "emitted effects =
     concat (map (\<lambda>e. case e of ClientEmit ev \<Rightarrow> [event_name ev] | _ \<Rightarrow> []) effects)"

section \<open>Example inputs\<close>

text \<open>
  A browser in which nothing fails and whose encoder takes plain WebM only, and one
  that takes every type of the preference list; a status endpoint that reports
  \<open>processing\<close> on the first poll and \<open>completed\<close> from the second on.
\<close>

definition example_platform :: platform where
  "example_platform =
     \<lparr>ws_origin = ''ws://localhost:8000'',
      socket_new_error = None, socket_send_error = None,
      mic_denied = None, getUserMedia_error = None, audio_analysis_error = None,
      encoder_new_error = None, encoder_start_error = None, encoder_stop_error = None,
      isTypeSupported = (\<lambda>ty. ty = ''audio/webm''),
      date_now = 5,
      frequency_data = replicate 128 0,
      blobToBase64 = (\<lambda>b. Inr ''AAEC''),
      toNumber = (\<lambda>v. None)\<rparr>"

definition opus_platform :: platform where
  "opus_platform = example_platform\<lparr>isTypeSupported := (\<lambda>ty. True)\<rparr>"

definition silent_platform :: platform where
  "silent_platform = example_platform\<lparr>frequency_data := [0, 0, 0, 0]\<rparr>"

definition processing_job :: job where
  "processing_job =
     \<lparr>job_status = ''processing'', job_text = [], job_language = [],
      job_processing_time = 0, job_error = None\<rparr>"

definition completed_job :: job where
  "completed_job =
     \<lparr>job_status = ''completed'', job_text = ''hello'', job_language = ''en'',
      job_processing_time = 1, job_error = None\<rparr>"

definition completed_on_second_poll :: "nat \<Rightarrow> poll_reply" where
  "completed_on_second_poll n = (if n = 1 then PollJson processing_job else PollJson completed_job)"

definition no_options :: upload_options where
  "no_options =
     \<lparr>opt_model = JUndefined, opt_language = JUndefined,
      opt_maxAttempts = None, opt_pollInterval = None\<rparr>"

text \<open>
  Recorders, obtained by running the recorder: one that has been started and has
  received chunks, and one that was started and stopped and then received the
  encoder's data. The options are those the composed client passes, with and
  without a time slice.
\<close>

definition streaming_options :: rec_options where
  "streaming_options = \<lparr>timeslice = Some 1000, bitsPerSecond = Some 128000\<rparr>"

definition batch_options :: rec_options where
  "batch_options = \<lparr>timeslice = None, bitsPerSecond = Some 128000\<rparr>"

definition deliver :: "AudioRecorder \<Rightarrow> blob list \<Rightarrow> AudioRecorder" where
  "deliver this chunks = foldl (\<lambda>r d. fst (ondataavailable r (Some d))) this chunks"

definition recording :: "platform \<Rightarrow> rec_options \<Rightarrow> blob list \<Rightarrow> AudioRecorder" where
  "recording pf options chunks =
     deliver (fst (snd (startRecording pf AudioRecorder_new options))) chunks"

definition recorded :: "platform \<Rightarrow> blob list \<Rightarrow> AudioRecorder" where
  "recorded pf chunks =
     deliver (fst (snd (stopRecording pf
                (fst (snd (startRecording pf AudioRecorder_new batch_options))))))
       chunks"

definition example_chunk :: blob where
  "example_chunk = \<lparr>blob_data = [0, 1, 2], blob_type = ''audio/webm''\<rparr>"

definition two_chunks :: "blob list" where
  "two_chunks =
     [\<lparr>blob_data = [0, 1, 2], blob_type = ''audio/webm''\<rparr>,
      \<lparr>blob_data = [3, 4], blob_type = ''audio/webm''\<rparr>]"

definition oversized_chunks :: "blob list" where
  "oversized_chunks =
     [\<lparr>blob_data = replicate (50 * 1024 * 1024 + 1) 0, blob_type = ''audio/webm''\<rparr>]"

definition busy_recorder :: AudioRecorder where
  "busy_recorder = recording example_platform streaming_options [example_chunk]"

definition monitoring_recorder :: AudioRecorder where
  "monitoring_recorder =
     AudioRecorder_new\<lparr>audioStream := True, audioContext := True, analyser := True,
                        dataArray := Some [0, 0, 0, 0]\<rparr>"

text \<open>
  Socket clients, obtained by running the socket client: one whose connection is
  open, and one whose open connection was closed by the network.
\<close>

definition open_socket :: WebSocketClient where
  "open_socket =
     fst (onopen (fst (snd (connect example_platform WebSocketClient_new ''/ws/transcribe''))))"

definition dropped_socket :: WebSocketClient where
  "dropped_socket = fst (onclose open_socket 1006 [])"

definition batch_settings :: jsobj where
  "batch_settings =
     [''model'' \<mapsto> JStr ''base'', ''language'' \<mapsto> JNull,
      ''recordingMode'' \<mapsto> JStr ''batch'', ''autoSend'' \<mapsto> JBool True]"

text \<open>
  Composed clients: one streaming whose connection dropped while recording; and,
  at the moment the encoder has stopped in batch mode, one online and one offline
  with two small chunks, one offline with a recording one byte over 50 MB, and one
  offline in the browser whose encoder takes WebM with the Opus codec named.
\<close>

definition dropped_streaming_client :: AudioClientV2 where
  "dropped_streaming_client =
     AudioClientV2_new\<lparr>recorder := busy_recorder, websocket := dropped_socket,
                        isRecording := True\<rparr>"




definition offline_opus_client :: AudioClientV2 where
  "offline_opus_client =
     AudioClientV2_new\<lparr>recorder := recorded opus_platform two_chunks,
                        websocket := dropped_socket,
                        settings := batch_settings, isRecording := True\<rparr>"

definition offline_old_client :: AudioClient where
  "offline_old_client =
     \<lparr>v1_websocket = True, v1_mediaRecorder = Some \<lparr>mimeType = ''audio/webm''\<rparr>,
      v1_isRecording = False, v1_isConnected = False,
      v1_recordedChunks = two_chunks, v1_settings = batch_settings\<rparr>"

text \<open>
  Upload settings that allow one byte and no format, two files, and two kinds of
  callback on a state that lists the callbacks that ran.
\<close>

definition tight_settings :: jsobj where
  "tight_settings = [''maxFileSize'' \<mapsto> JNum 1, ''supportedFormats'' \<mapsto> JArr []]"

definition text_file :: audio_file where
  "text_file = \<lparr>file_name = ''notes.txt'', file_data = [104, 105], file_type = ''text/plain''\<rparr>"

definition webm_file :: audio_file where
  "webm_file = \<lparr>file_name = ''clip.webm'', file_data = [0, 1, 2], file_type = ''audio/webm''\<rparr>"

definition logging_callback :: "nat \<Rightarrow> (string, nat list) callback" where
  "logging_callback i = \<lparr>cb_id = i, cb_run = (\<lambda>d w. Returns (w @ [i]))\<rparr>"

definition throwing_callback :: "nat \<Rightarrow> (string, nat list) callback" where
  "throwing_callback i = \<lparr>cb_id = i, cb_run = (\<lambda>d w. Throws (w @ [i]))\<rparr>"

section \<open>Properties\<close>

subsection \<open>The example states\<close>

lemma started_recorder:
  "encoder_new_error pf = None \<Longrightarrow> encoder_start_error pf = None \<Longrightarrow> mic_denied pf = None \<Longrightarrow>
   getUserMedia_error pf = None \<Longrightarrow>
   mediaRecorder (fst (snd (startRecording pf AudioRecorder_new options)))
     = Some \<lparr>mimeType = getSupportedMimeType pf\<rparr>
   \<and> recordedChunks (fst (snd (startRecording pf AudioRecorder_new options))) = []
   \<and> rec_isRecording (fst (snd (startRecording pf AudioRecorder_new options)))"
  by (simp add: startRecording_def requestMicrophoneAccess_def setupAudioAnalysis_def
      updateAudioLevel_def AudioRecorder_new_def Let_def split: option.splits prod.splits)

lemma deliver_fields:
  "mediaRecorder (deliver this chunks) = mediaRecorder this"
  "rec_isRecording (deliver this chunks) = rec_isRecording this"
  "recordedChunks (deliver this chunks)
     = recordedChunks this @ filter (\<lambda>d. blob_size d > 0) chunks"
  unfolding deliver_def
  by (induction chunks arbitrary: this) (simp_all add: ondataavailable_def Let_def)

lemma example_mime:
  "getSupportedMimeType example_platform = ''audio/webm''"
  "getSupportedMimeType opus_platform = ''audio/webm;codecs=opus''"
  by (simp_all add: getSupportedMimeType_def mime_preferences_def example_platform_def
      opus_platform_def)

lemma recorded_fields:
  assumes "encoder_new_error pf = None" "encoder_start_error pf = None" "mic_denied pf = None"
    "getUserMedia_error pf = None" "encoder_stop_error pf = None"
  shows "mediaRecorder (recorded pf chunks) = Some \<lparr>mimeType = getSupportedMimeType pf\<rparr>"
    and "recordedChunks (recorded pf chunks) = filter (\<lambda>d. blob_size d > 0) chunks"
    and "\<not> rec_isRecording (recorded pf chunks)"
  using started_recorder [OF assms(1-4), of batch_options] assms(5)
  by (simp_all add: recorded_def deliver_fields stopRecording_def)

lemma example_platform_quiet:
  "encoder_new_error example_platform = None" "encoder_start_error example_platform = None"
  "mic_denied example_platform = None" "getUserMedia_error example_platform = None"
  "encoder_stop_error example_platform = None"
  by (simp_all add: example_platform_def)

lemma opus_platform_quiet:
  "encoder_new_error opus_platform = None" "encoder_start_error opus_platform = None"
  "mic_denied opus_platform = None" "getUserMedia_error opus_platform = None"
  "encoder_stop_error opus_platform = None"
  by (simp_all add: opus_platform_def example_platform_def)

lemmas example_recorded = recorded_fields [OF example_platform_quiet]

lemmas opus_recorded = recorded_fields [OF opus_platform_quiet]

lemma example_recordings:
  "getRecordingBlob (recorded example_platform two_chunks)
     = Some (new_Blob two_chunks ''audio/webm'')"
  "getRecordingBlob (recorded example_platform oversized_chunks)
     = Some (new_Blob oversized_chunks ''audio/webm'')"
  "getRecordingBlob (recorded opus_platform two_chunks)
     = Some (new_Blob two_chunks ''audio/webm;codecs=opus'')"
  by (simp_all add: getRecordingBlob_def example_recorded opus_recorded example_mime
      two_chunks_def oversized_chunks_def blob_size_def)

lemma busy_recorder_recording: "rec_isRecording busy_recorder"
  using started_recorder [OF example_platform_quiet(1-4), of streaming_options]
  by (simp add: busy_recorder_def recording_def deliver_fields)

lemma example_sockets:
  "ws_isConnected open_socket" "ws_websocket open_socket \<noteq> None"
  "\<not> ws_isConnected dropped_socket"
  by (simp_all add: open_socket_def dropped_socket_def onopen_def onclose_def connect_def
      startKeepAlive_def stopKeepAlive_def shouldReconnect_def scheduleReconnect_def
      example_platform_def WebSocketClient_new_def Let_def)


subsection \<open>Shared facts about effect lists and the poll chain\<close>

lemma send_not_connected:
  "\<not> ws_isConnected ws \<Longrightarrow>
   send pf ws msg = (Inl (failed (Some NOT_CONNECTED) ''Not connected to server''), [])"
  by (simp add: send_def)

lemma upload_requests_append:
  "upload_requests (xs @ ys) = upload_requests xs @ upload_requests ys"
  by (simp add: upload_requests_def)


lemma uploads_append: "uploads (xs @ ys) = uploads xs @ uploads ys"
  by (simp add: uploads_def)

lemma forwarded_uploads:
  "upload_requests (concat (map forward_uploader es)) = uploads es"
proof (induction es)
  case Nil
  show ?case by (simp add: upload_requests_def uploads_def)
next
  case (Cons e es)
  have "upload_requests (forward_uploader e) = uploads [e]"
    by (cases e rule: forward_uploader.cases)
       (simp_all add: upload_requests_def uploads_def split: http_request.splits)
  with Cons show ?case
    using uploads_append [of "[e]" es] by (simp add: upload_requests_append)
qed


lemma poll_body_uploads:
  "uploads (fst (snd (poll_body this reply rid maxAttempts attempts))) = []"
  by (simp add: poll_body_def uploads_def Let_def split: poll_reply.splits)

lemma poll_uploads: "uploads (snd (poll this server rid maxAttempts attempts)) = []"
proof (induction this server rid maxAttempts attempts rule: poll.induct)
  case (1 this server rid maxAttempts attempts)
  obtain r es again
    where body: "poll_body this (server (Suc attempts)) rid maxAttempts (Suc attempts)
                   = (r, es, again)"
    by (cases "poll_body this (server (Suc attempts)) rid maxAttempts (Suc attempts)")
  have es: "uploads es = []"
    using poll_body_uploads [of this "server (Suc attempts)" rid maxAttempts "Suc attempts"]
    by (simp add: body)
  show ?case
  proof (cases again)
    case True
    with "1.IH" [OF body [symmetric] refl True] es body show ?thesis
      by (subst poll.simps) (simp add: uploads_append)
  next
    case False
    with es body show ?thesis
      by (subst poll.simps) simp
  qed
qed

lemma uploadFile_uploads:
  "uploads (snd (uploadFile this reply (Some f) options))
     = (if validateAudioFile (Some f) = Valid
        then [POST (js_get (uploadSettings this) ''endpoint'') f
                (if truthy (opt_model options) then opt_model options else JStr ''base'')
                (if truthy (opt_language options) then Some (opt_language options) else None)]
        else [])"
  by (cases "validateAudioFile (Some f)"; cases reply)
     (simp_all add: uploadFile_def validateFile_def uploads_def Let_def)

lemma uploadAndWaitForResult_uploads:
  "uploads (snd (uploadAndWaitForResult this reply server fo options))
     = uploads (snd (uploadFile this reply fo options))"
proof -
  obtain r es where up: "uploadFile this reply fo options = (r, es)"
    by (cases "uploadFile this reply fo options")
  show ?thesis
  proof (cases r)
    case (Inl e)
    with up show ?thesis by (simp add: uploadAndWaitForResult_def)
  next
    case (Inr acc)
    obtain v ps where p: "pollForResult this server (acc_requestId acc) options = (v, ps)"
      by (cases "pollForResult this server (acc_requestId acc) options")
    have "uploads ps = []"
      using poll_uploads p by (simp add: pollForResult_def Let_def split: option.splits if_splits) (metis snd_conv)+
    with up Inr p show ?thesis
      by (simp add: uploadAndWaitForResult_def uploads_append)
  qed
qed

subsection \<open>The poll loop\<close>

lemma poll_first_pending:
  assumes "server 1 = PollJson j" "job_status j \<noteq> ''completed''" "job_status j \<noteq> ''failed''"
    and "1 < maxAttempts"
  shows "fst (poll this server rid maxAttempts 0) = Undefined"
  using assms by (subst poll.simps) (simp add: poll_body_def Let_def)

text \<open>
  C1. The claim: the result of \<open>pollForResult\<close> follows the first terminal status,
  in particular it is the transcription when \<open>completed\<close> is first reported on
  poll 2. On that input the value returned is \<open>undefined\<close>: the first run of
  \<open>poll\<close> re-arms the timer and ends without \<open>return\<close>, and the result of the
  second run is only visible as a \<open>transcription\<close> event.
\<close>

theorem pollForResult_drops_second_poll:
  "pollForResult FileUploader_new completed_on_second_poll ''req-1'' no_options
     = (Undefined,
        [Fetch (GET (JStr ''/api/transcribe'') ''req-1''),
         Emit (PollingEvent ''req-1'' 1 ''processing''),
         Fetch (GET (JStr ''/api/transcribe'') ''req-1''),
         Emit (TranscriptionEvent ''hello'' ''en'' 1 ''req-1'')])"
  apply (simp add: pollForResult_def no_options_def)
  apply (subst poll.simps)
  apply (subst poll.simps)
  apply (simp add: poll_body_def completed_on_second_poll_def processing_job_def completed_job_def
      FileUploader_new_def js_get_def Let_def)
  done

subsection \<open>Streaming chunks while disconnected\<close>

lemma handleStreamingAudio_not_connected:
  assumes "\<not> ws_isConnected (websocket this)"
  shows "handleStreamingAudio pf this chunk
           = (case blobToBase64 pf chunk of
                Inl msg \<Rightarrow>
                  (Inl (failed None msg),
                   [ClientEmit (CError \<lparr>code = Some SEND_AUDIO_FAILED,
                                         error = ''Failed to send streaming audio'',
                                         requestId = None, details = Some msg\<rparr>)])
              | Inr b \<Rightarrow> (Inl (failed (Some NOT_CONNECTED) ''Not connected to server''), []))"
  using assms
  by (simp add: handleStreamingAudio_def sendAudio_def send_not_connected Let_def
      split: sum.splits)

text \<open>
  C2, as the code has it. While the socket client is not connected, a chunk handed
  to the streaming listener transmits nothing and no \<open>sendFailed\<close> event is
  emitted: \<open>send\<close> returns a \<open>NOT_CONNECTED\<close> failure, which the listener ignores,
  and the only event possible is \<open>error\<close> (\<open>SEND_AUDIO_FAILED\<close>) when the reader
  fails on the chunk. The functions involved return no new client state, and when
  the encoder stops in streaming mode the client only emits \<open>recordingStopped\<close>:
  nothing is sent again from the recorder's chunks. The older client returns from
  \<open>sendAudioChunk\<close> at once.
\<close>

theorem streaming_chunk_dropped_without_event:
  "(\<not> ws_isConnected (websocket this) \<longrightarrow>
      transmitted (on_audioData pf this chunk) = []
      \<and> ''sendFailed'' \<notin> set (emitted (on_audioData pf this chunk))
      \<and> handleStreamingAudio pf this chunk
          = (case blobToBase64 pf chunk of
               Inl msg \<Rightarrow>
                 (Inl (failed None msg),
                  [ClientEmit (CError \<lparr>code = Some SEND_AUDIO_FAILED,
                                        error = ''Failed to send streaming audio'',
                                        requestId = None, details = Some msg\<rparr>)])
             | Inr b \<Rightarrow> (Inl (failed (Some NOT_CONNECTED) ''Not connected to server''), [])))
   \<and> (js_get (settings this) ''recordingMode'' = JStr ''streaming'' \<longrightarrow>
        snd (recording_completed pf reply server this) = [ClientEmit CRecordingStopped])
   \<and> (\<not> v1_isConnected old \<longrightarrow> v1_sendAudioChunk pf old chunk = [])"
proof -
  have v2: "transmitted (on_audioData pf this chunk) = []
            \<and> ''sendFailed'' \<notin> set (emitted (on_audioData pf this chunk))"
    if "\<not> ws_isConnected (websocket this)"
    using that
    by (simp add: on_audioData_def handleStreamingAudio_not_connected transmitted_def
        emitted_def split: sum.splits)
  have stop: "snd (recording_completed pf reply server this) = [ClientEmit CRecordingStopped]"
    if "js_get (settings this) ''recordingMode'' = JStr ''streaming''"
    using that by (simp add: recording_completed_def on_recordingStopped_def)
  have v1: "v1_sendAudioChunk pf old chunk = []" if "\<not> v1_isConnected old"
    using that by (simp add: v1_sendAudioChunk_def)
  show ?thesis
    using v2 stop v1 handleStreamingAudio_not_connected by blast
qed

theorem streaming_chunk_dropped_witness:
  "\<not> ws_isConnected (websocket dropped_streaming_client)
   \<and> transmitted (on_audioData example_platform dropped_streaming_client example_chunk) = []
   \<and> handleStreamingAudio example_platform dropped_streaming_client example_chunk
       = (Inl (failed (Some NOT_CONNECTED) ''Not connected to server''), [])
   \<and> snd (recording_completed example_platform (UploadOk ''req-1'' ''pending'')
             completed_on_second_poll dropped_streaming_client)
       = [ClientEmit CRecordingStopped]
   \<and> \<not> v1_isConnected offline_old_client
   \<and> v1_sendAudioChunk example_platform offline_old_client example_chunk = []"
proof -
  have mode: "js_get (settings dropped_streaming_client) ''recordingMode'' = JStr ''streaming''"
    by (simp add: dropped_streaming_client_def AudioClientV2_new_def js_get_def)
  have off: "\<not> ws_isConnected (websocket dropped_streaming_client)"
    using example_sockets(3) by (simp add: dropped_streaming_client_def)
  have old: "\<not> v1_isConnected offline_old_client"
    by (simp add: offline_old_client_def)
  have enc: "blobToBase64 example_platform example_chunk = Inr ''AAEC''"
    by (simp add: example_platform_def)
  show ?thesis
    using streaming_chunk_dropped_without_event
            [of dropped_streaming_client example_platform example_chunk
                "UploadOk ''req-1'' ''pending''" completed_on_second_poll offline_old_client]
          mode off old
    by (simp add: enc)
qed

text \<open>
  C2 as stated asks for a \<open>sendFailed\<close> event. For a client in streaming mode
  whose connection dropped while it was recording, a chunk produces no effect at
  all.
\<close>

theorem streaming_no_sendFailed_event:
  "js_get (settings dropped_streaming_client) ''recordingMode'' = JStr ''streaming''
   \<and> \<not> ws_isConnected (websocket dropped_streaming_client)
   \<and> on_audioData example_platform dropped_streaming_client example_chunk = []
   \<and> ''sendFailed'' \<notin> set (emitted (on_audioData example_platform dropped_streaming_client
                                        example_chunk))"
  using example_sockets(3)
  by (simp add: on_audioData_def handleStreamingAudio_not_connected dropped_streaming_client_def
      AudioClientV2_new_def example_platform_def js_get_def emitted_def)

subsection \<open>Reconnection backoff\<close>

lemma scheduled_delays_append:
  "scheduled_delays (xs @ ys) = scheduled_delays xs @ scheduled_delays ys"
  by (simp add: scheduled_delays_def)

lemma stopKeepAlive_fields:
  "currentAttempt (fst (stopKeepAlive this)) = currentAttempt this"
  "ws_connectionSettings (fst (stopKeepAlive this)) = ws_connectionSettings this"
  "scheduled_delays (snd (stopKeepAlive this)) = []"
  by (simp_all add: stopKeepAlive_def scheduled_delays_def)

lemma onclose_abnormal:
  assumes "cd \<noteq> 1000"
  shows "scheduled_delays (snd (onclose this cd reason))
           = (if currentAttempt this < reconnectAttempts (ws_connectionSettings this)
              then [delay_formula (ws_connectionSettings this) (Suc (currentAttempt this))]
              else [])"
    and "currentAttempt (fst (onclose this cd reason))
           = (if currentAttempt this < reconnectAttempts (ws_connectionSettings this)
              then Suc (currentAttempt this) else currentAttempt this)"
    and "ws_connectionSettings (fst (onclose this cd reason)) = ws_connectionSettings this"
  using assms
  by (simp_all add: onclose_def stopKeepAlive_def shouldReconnect_def scheduleReconnect_def
        scheduled_delays_def delay_formula_def Let_def)

lemma reconnect_timer_fields:
  "scheduled_delays (snd (reconnect_timer pf this)) = []"
  "currentAttempt (fst (reconnect_timer pf this)) = currentAttempt this"
  "ws_connectionSettings (fst (reconnect_timer pf this)) = ws_connectionSettings this"
  by (simp_all add: reconnect_timer_def connect_def scheduled_delays_def Let_def
        split: option.splits)

lemma failed_attempts_Suc:
  "failed_attempts (Suc k) = Close 1006 [] # ReconnectTimer # failed_attempts k"
  by (simp add: failed_attempts_def)

lemma ws_run_failed_attempt:
  "scheduled_delays (snd (ws_run pf this (failed_attempts (Suc k))))
     = scheduled_delays (snd (onclose this 1006 []))
       @ scheduled_delays
           (snd (ws_run pf (fst (reconnect_timer pf (fst (onclose this 1006 []))))
                   (failed_attempts k)))"
proof -
  obtain t1 e1 where c: "onclose this 1006 [] = (t1, e1)"
    by (cases "onclose this 1006 []")
  obtain t2 e2 where r: "reconnect_timer pf t1 = (t2, e2)"
    by (cases "reconnect_timer pf t1")
  obtain t3 e3 where w: "ws_run pf t2 (failed_attempts k) = (t3, e3)"
    by (cases "ws_run pf t2 (failed_attempts k)")
  have "scheduled_delays e2 = []"
    using reconnect_timer_fields(1) [of pf t1] r by simp
  then show ?thesis
    by (simp add: failed_attempts_Suc c r w scheduled_delays_append)
qed

lemma delays_of_failed_attempts:
  "scheduled_delays (snd (ws_run pf this (failed_attempts k)))
     = map (delay_formula (ws_connectionSettings this))
         [Suc (currentAttempt this) ..<
            Suc (min (currentAttempt this + k) (reconnectAttempts (ws_connectionSettings this)))]"
proof (induction k arbitrary: this)
  case 0
  show ?case by (simp add: failed_attempts_def scheduled_delays_def)
next
  case (Suc k)
  let ?a = "currentAttempt this"
  let ?cs = "ws_connectionSettings this"
  let ?m = "reconnectAttempts ?cs"
  let ?next = "fst (reconnect_timer pf (fst (onclose this 1006 [])))"
  have cs: "ws_connectionSettings ?next = ?cs"
    by (simp add: reconnect_timer_fields onclose_abnormal)
  have rest: "scheduled_delays (snd (ws_run pf ?next (failed_attempts k)))
                = map (delay_formula ?cs)
                    [Suc (currentAttempt ?next) ..< Suc (min (currentAttempt ?next + k) ?m)]"
    using Suc.IH [of ?next] by (simp only: cs)
  show ?case
  proof (cases "?a < ?m")
    case True
    have a: "currentAttempt ?next = Suc ?a"
      using True by (simp add: reconnect_timer_fields onclose_abnormal)
    have "Suc ?a < Suc (min (Suc (?a + k)) ?m)"
      using True by simp
    then have upt: "[Suc ?a ..< Suc (min (Suc (?a + k)) ?m)]
                      = Suc ?a # [Suc (Suc ?a) ..< Suc (min (Suc (?a + k)) ?m)]"
      by (rule upt_conv_Cons)
    have "scheduled_delays (snd (ws_run pf this (failed_attempts (Suc k))))
            = delay_formula ?cs (Suc ?a)
                # map (delay_formula ?cs) [Suc (Suc ?a) ..< Suc (min (Suc ?a + k) ?m)]"
      using True by (simp only: ws_run_failed_attempt onclose_abnormal rest a) simp
    also have "\<dots> = map (delay_formula ?cs) [Suc ?a ..< Suc (min (?a + Suc k) ?m)]"
      by (simp only: upt list.map add_Suc_right add_Suc)
    finally show ?thesis .
  next
    case False
    have a: "currentAttempt ?next = ?a"
      using False by (simp add: reconnect_timer_fields onclose_abnormal)
    have "scheduled_delays (snd (ws_run pf this (failed_attempts (Suc k)))) = []"
      using False by (simp only: ws_run_failed_attempt onclose_abnormal rest a) simp
    moreover have "[Suc ?a ..< Suc (min (?a + Suc k) ?m)] = []"
      using False by simp
    ultimately show ?thesis by simp
  qed
qed

text \<open>
  C3. Starting with the counter at 0, the timers set during \<open>k\<close> consecutive failed
  attempts are those of attempts \<open>1..min k reconnectAttempts\<close>, attempt \<open>n\<close> with
  delay \<open>reconnectDelay * reconnectBackoff ^ (n - 1)\<close>; no more than
  \<open>reconnectAttempts\<close> timers are ever set; and \<open>onopen\<close> puts the counter back
  to 0. Numbers are reals here.
\<close>

theorem reconnect_backoff:
  assumes "currentAttempt this = 0"
  shows "scheduled_delays (snd (ws_run pf this (failed_attempts k)))
           = map (\<lambda>n. reconnectDelay (ws_connectionSettings this)
                         * reconnectBackoff (ws_connectionSettings this) ^ (n - 1))
               [1 ..< Suc (min k (reconnectAttempts (ws_connectionSettings this)))]
         \<and> (1 \<le> n \<and> n \<le> reconnectAttempts (ws_connectionSettings this) \<and> n \<le> k \<longrightarrow>
              scheduled_delays (snd (ws_run pf this (failed_attempts k))) ! (n - 1)
                = reconnectDelay (ws_connectionSettings this)
                    * reconnectBackoff (ws_connectionSettings this) ^ (n - 1))
         \<and> length (scheduled_delays (snd (ws_run pf this (failed_attempts k))))
              \<le> reconnectAttempts (ws_connectionSettings this)
         \<and> currentAttempt (fst (onopen other)) = 0"
proof -
  let ?cs = "ws_connectionSettings this"
  let ?m = "reconnectAttempts ?cs"
  let ?ds = "scheduled_delays (snd (ws_run pf this (failed_attempts k)))"
  have ds: "?ds = map (delay_formula ?cs) [1 ..< Suc (min k ?m)]"
    using delays_of_failed_attempts [of pf this k] assms by simp
  have nth: "?ds ! (n - 1) = delay_formula ?cs n"
    if "1 \<le> n" "n \<le> ?m" "n \<le> k"
  proof -
    from that have lt: "n - 1 < min k ?m" by arith
    then have "n - 1 < length [1 ..< Suc (min k ?m)]" by simp
    then have "?ds ! (n - 1) = delay_formula ?cs ([1 ..< Suc (min k ?m)] ! (n - 1))"
      unfolding ds by (rule nth_map)
    also have "[1 ..< Suc (min k ?m)] ! (n - 1) = 1 + (n - 1)"
      using lt by (intro nth_upt) simp
    also have "1 + (n - 1) = n"
      using that by simp
    finally show ?thesis .
  qed
  have reset: "currentAttempt (fst (onopen other)) = 0"
    by (simp add: onopen_def startKeepAlive_def)
  have len: "length ?ds \<le> ?m"
    unfolding ds by simp
  have ds': "?ds = map (\<lambda>n. reconnectDelay ?cs * reconnectBackoff ?cs ^ (n - 1))
                     [1 ..< Suc (min k ?m)]"
    unfolding ds by (simp only: delay_formula_def [abs_def])
  show ?thesis
    using ds' nth reset len by (simp only: delay_formula_def) blast
qed

theorem reconnect_backoff_witness:
  "currentAttempt WebSocketClient_new = 0
   \<and> scheduled_delays (snd (ws_run example_platform WebSocketClient_new (failed_attempts 7)))
       = [1000, 2000, 4000, 8000, 16000]
   \<and> scheduled_delays (snd (ws_run example_platform WebSocketClient_new (failed_attempts 7))) ! 2
       = 4000"
proof -
  have zero: "currentAttempt WebSocketClient_new = 0"
    by (simp add: WebSocketClient_new_def)
  show ?thesis
    using reconnect_backoff [OF zero, of example_platform 7 3 WebSocketClient_new]
    by (simp add: WebSocketClient_new_def upt_rec)
qed

subsection \<open>Batch recordings\<close>

lemma getRecordingBlob_Some:
  assumes "getRecordingBlob r = Some audioBlob"
  shows "recordedChunks r \<noteq> []"
    and "blob_data audioBlob = concat (map blob_data (recordedChunks r))"
  using assms by (auto simp: getRecordingBlob_def new_Blob_def split: if_splits)


lemma recording_completed_batch:
  assumes "js_get (settings this) ''recordingMode'' = JStr ''batch''"
    and "getRecordingBlob (recorder this) = Some audioBlob"
  shows "snd (recording_completed pf reply server this)
           = ClientEmit CRecordingStopped
             # (if isConnected this then snd (handleStreamingAudio pf (this\<lparr>isRecording := False\<rparr>) audioBlob)
                else concat (map forward_uploader
                  (snd (uploadAndWaitForResult (uploader this) reply server
                     (Some (createFileFromBlob audioBlob
                              (''recording_'' @ decimal (date_now pf) @ ''.webm'')
                              (blob_type audioBlob)))
                     \<lparr>opt_model = js_get (settings this) ''model'',
                      opt_language = js_get (settings this) ''language'',
                      opt_maxAttempts = None, opt_pollInterval = None\<rparr>))))"
  using assms getRecordingBlob_Some(1) [OF assms(2)]
  by (simp add: recording_completed_def on_recordingStopped_def handleBatchRecording_def
      Let_def split: prod.splits)





text \<open>
  The same happens to every recording made where the encoder takes the first type
  of the preference list: the blob's type \<open>audio/webm;codecs=opus\<close> is not in
  \<open>supportedTypes\<close>, so the upload path stops at validation.
\<close>

lemma batch_opus_recording_not_uploaded:
  "blob_type (new_Blob two_chunks ''audio/webm;codecs=opus'') \<notin> set supportedTypes
   \<and> \<not> isConnected offline_opus_client
   \<and> upload_requests (snd (recording_completed opus_platform (UploadOk ''req-1'' ''pending'')
                              completed_on_second_poll offline_opus_client)) = []"
proof -
  let ?c = offline_opus_client
  let ?blob = "new_Blob two_chunks ''audio/webm;codecs=opus''"
  have mode: "js_get (settings ?c) ''recordingMode'' = JStr ''batch''"
    by (simp add: offline_opus_client_def batch_settings_def js_get_def)
  have blob: "getRecordingBlob (recorder ?c) = Some ?blob"
    by (simp add: offline_opus_client_def example_recordings)
  have off: "\<not> isConnected ?c"
    by (simp add: offline_opus_client_def AudioClientV2_new_def)
  have ty: "blob_type ?blob \<notin> set supportedTypes"
    by (simp add: new_Blob_def supportedTypes_def)
  then have bad: "validateAudioFile (Some (createFileFromBlob ?blob n (blob_type ?blob))) \<noteq> Valid"
    for n
    by (simp add: validateAudioFile_def createFileFromBlob_def)
  have u: "upload_requests (ClientEmit CRecordingStopped # es) = upload_requests es" for es
    by (simp add: upload_requests_def)
  show ?thesis
    using off bad ty
    by (simp add: recording_completed_batch [OF mode blob] u forwarded_uploads
        uploadAndWaitForResult_uploads uploadFile_uploads)
qed

subsection \<open>Upload validation\<close>

text \<open>
  C5. A file over the size ceiling, or of a type outside the allow-list, makes
  \<open>uploadFile\<close> return a \<open>FILE_VALIDATION_FAILED\<close> failure without any \<open>fetch\<close>.
\<close>

theorem uploadFile_rejects_invalid:
  assumes "file_size f > maxSize \<or> file_type f \<notin> set supportedTypes"
  shows "is_failure_with FILE_VALIDATION_FAILED (fst (uploadFile this reply (Some f) options))
         \<and> fetches (snd (uploadFile this reply (Some f) options)) = []"
  using assms
  by (auto simp: uploadFile_def validateFile_def validateAudioFile_def is_failure_with_def
        failed_def fetches_def Let_def)

theorem uploadFile_rejects_invalid_witness:
  "file_type text_file \<notin> set supportedTypes
   \<and> is_failure_with FILE_VALIDATION_FAILED
        (fst (uploadFile FileUploader_new (UploadOk ''req-1'' ''pending'') (Some text_file)
                no_options))
   \<and> fetches (snd (uploadFile FileUploader_new (UploadOk ''req-1'' ''pending'')
                      (Some text_file) no_options)) = []"
proof -
  have ty: "file_type text_file \<notin> set supportedTypes"
    by (simp add: text_file_def supportedTypes_def)
  then have "file_size text_file > maxSize \<or> file_type text_file \<notin> set supportedTypes"
    by simp
  from uploadFile_rejects_invalid [OF this] ty show ?thesis
    by simp
qed

text \<open>
  C10. \<open>validateFile\<close> gives the same answer after any sequence of
  \<open>updateUploadSettings\<close> calls; a file passes exactly when it is at most 50 MB and
  its type is in the list fixed in \<open>validateAudioFile\<close>; and whether \<open>uploadFile\<close>
  stops at validation does not depend on the settings either.
\<close>

theorem validateFile_ignores_uploadSettings:
  "validateFile (foldl updateUploadSettings this updates) fo = validateFile this fo
   \<and> (validateFile this (Some f) = Valid)
       = (file_size f \<le> 50 * 1024 * 1024 \<and> file_type f \<in> set supportedTypes)
   \<and> is_failure_with FILE_VALIDATION_FAILED
        (fst (uploadFile (foldl updateUploadSettings this updates) reply fo options))
       = is_failure_with FILE_VALIDATION_FAILED (fst (uploadFile this reply fo options))"
  by (auto simp: validateFile_def validateAudioFile_def maxSize_def uploadFile_def
        is_failure_with_def failed_def upload_failed_def Let_def
      split: option.splits upload_reply.splits)

theorem validateFile_ignores_uploadSettings_witness:
  "validateFile (foldl updateUploadSettings FileUploader_new [tight_settings]) (Some webm_file)
     = Valid
   \<and> uploadSettings (foldl updateUploadSettings FileUploader_new [tight_settings])
        ''maxFileSize'' = Some (JNum 1)
   \<and> file_size webm_file = 3"
  using validateFile_ignores_uploadSettings
          [of FileUploader_new "[tight_settings]" "Some webm_file" webm_file
              "UploadOk ''req-1'' ''pending''" no_options]
  by (simp add: validateFile_def validateAudioFile_def webm_file_def file_size_def maxSize_def
      supportedTypes_def updateUploadSettings_def spread_def tight_settings_def)

subsection \<open>Recording guards\<close>

text \<open>
  C6. \<open>startRecording\<close> on a recorder that is recording fails with
  \<open>Already recording\<close>, and \<open>stopRecording\<close> on one that is not recording fails with
  \<open>Not recording\<close>; both leave the recorder as it was and have no effect, so the
  encoder is not started again.
\<close>

theorem recording_guards:
  "(rec_isRecording this \<longrightarrow>
      startRecording pf this options = (Inl (failed None ''Already recording''), this, []))
   \<and> (\<not> rec_isRecording this \<longrightarrow>
      stopRecording pf this = (Inl (failed None ''Not recording''), this, []))"
  by (simp add: startRecording_def stopRecording_def)

theorem recording_guards_witness:
  "rec_isRecording busy_recorder
   \<and> startRecording example_platform busy_recorder streaming_options
       = (Inl (failed None ''Already recording''), busy_recorder, [])
   \<and> \<not> rec_isRecording AudioRecorder_new
   \<and> stopRecording example_platform AudioRecorder_new
       = (Inl (failed None ''Not recording''), AudioRecorder_new, [])"
  using recording_guards [of busy_recorder example_platform streaming_options]
        recording_guards [of AudioRecorder_new example_platform streaming_options]
        busy_recorder_recording
  by (simp add: AudioRecorder_new_def)

subsection \<open>Settings\<close>

text \<open>
  C7. After \<open>updateSettings P\<close>, \<open>getSettings\<close> is the old settings overridden by
  \<open>P\<close>: keys \<open>P\<close> does not mention keep their value, keys it mentions take \<open>P\<close>'s;
  applying the same update again changes nothing. The same holds for the older
  client.
\<close>

theorem settings_merge:
  "getSettings (fst (updateSettings pf this P)) = settings this ++ P
   \<and> (\<forall>k. P k = None \<longrightarrow> getSettings (fst (updateSettings pf this P)) k = settings this k)
   \<and> (\<forall>k v. P k = Some v \<longrightarrow> getSettings (fst (updateSettings pf this P)) k = Some v)
   \<and> getSettings (fst (updateSettings pf (fst (updateSettings pf this P)) P))
       = getSettings (fst (updateSettings pf this P))
   \<and> v1_getSettings (fst (snd (v1_updateSettings pf old P))) = v1_settings old ++ P
   \<and> v1_getSettings (fst (snd (v1_updateSettings pf (fst (snd (v1_updateSettings pf old P))) P)))
       = v1_getSettings (fst (snd (v1_updateSettings pf old P)))"
  by (auto simp: getSettings_def updateSettings_def v1_getSettings_def v1_updateSettings_def
        spread_def Let_def map_add_def split: option.splits)

theorem settings_merge_witness:
  "getSettings (fst (updateSettings example_platform AudioClientV2_new
                       [''language'' \<mapsto> JStr ''en''])) ''language'' = Some (JStr ''en'')
   \<and> getSettings (fst (updateSettings example_platform AudioClientV2_new
                         [''language'' \<mapsto> JStr ''en''])) ''model'' = Some (JStr ''base'')"
  using settings_merge [of example_platform AudioClientV2_new "[''language'' \<mapsto> JStr ''en'']"
                           offline_old_client]
  by (simp add: AudioClientV2_new_def)

subsection \<open>Event emitter\<close>

lemma forEach_callback_ids:
  "map fst (snd (forEach_callback cbs d w)) = map cb_id cbs"
proof (induction cbs arbitrary: w)
  case Nil
  then show ?case by simp
next
  case (Cons c cbs)
  show ?case
  proof (cases "cb_run c d w")
    case (Returns w')
    with Cons.IH [of w'] show ?thesis
      by (cases "forEach_callback cbs d w'") simp
  next
    case (Throws w')
    with Cons.IH [of w'] show ?thesis
      by (cases "forEach_callback cbs d w'") simp
  qed
qed

lemma forEach_callback_state:
  "fst (forEach_callback cbs d w) = all_called cbs d w"
proof (induction cbs arbitrary: w)
  case Nil
  then show ?case by (simp add: all_called_def)
next
  case (Cons c cbs)
  show ?case
  proof (cases "cb_run c d w")
    case (Returns w')
    with Cons.IH [of w'] show ?thesis
      by (cases "forEach_callback cbs d w'") (simp add: all_called_def)
  next
    case (Throws w')
    with Cons.IH [of w'] show ?thesis
      by (cases "forEach_callback cbs d w'") (simp add: all_called_def)
  qed
qed

lemma get_property_own_name:
  "event \<notin> set Object_prototype \<Longrightarrow>
   get_property events event = (case events event of None \<Rightarrow> NotFound | Some cbs \<Rightarrow> Own cbs)"
  by (simp add: get_property_def split: option.splits)

lemma on_own_name:
  "event \<notin> set Object_prototype \<Longrightarrow>
   on events event c
     = Inr (events(event \<mapsto> (case events event of None \<Rightarrow> [] | Some old \<Rightarrow> old) @ [c]))"
  by (simp add: on_def get_property_own_name split: option.splits)

lemma subscribe_all_own_name:
  assumes "event \<notin> set Object_prototype"
  shows "subscribe_all events event cbs
           = Inr (if cbs = [] then events
                  else events(event \<mapsto>
                         (case events event of None \<Rightarrow> [] | Some old \<Rightarrow> old) @ cbs))"
proof (induction cbs arbitrary: events)
  case Nil
  show ?case by simp
next
  case (Cons c cbs)
  let ?old = "case events event of None \<Rightarrow> [] | Some old \<Rightarrow> old"
  let ?events' = "events(event \<mapsto> ?old @ [c])"
  have "subscribe_all events event (c # cbs) = subscribe_all ?events' event cbs"
    by (simp add: on_own_name [OF assms])
  also have "\<dots> = Inr (if cbs = [] then ?events'
                        else ?events'(event \<mapsto>
                               (case ?events' event of None \<Rightarrow> [] | Some old \<Rightarrow> old) @ cbs))"
    by (rule Cons.IH)
  also have "\<dots> = Inr (events(event \<mapsto> ?old @ c # cbs))"
    by simp
  finally have "subscribe_all events event (c # cbs) = Inr (events(event \<mapsto> ?old @ c # cbs))" .
  then show ?case
    by (simp only: list.distinct if_False)
qed

text \<open>
  At every event name that \<open>Object.prototype\<close> does not define, the emitter does
  what is expected of it: after callbacks are registered one after the other,
  \<open>emit\<close> calls each of them once, in registration order, a callback that throws
  included, the next one starting from the state the thrower left.
\<close>

lemma emit_fifo_own_names:
  assumes "event \<notin> set Object_prototype"
  shows "case subscribe_all Map.empty event cbs of
           Inl e \<Rightarrow> False
         | Inr events \<Rightarrow>
             (case emit events event d w of
                Inl e \<Rightarrow> False
              | Inr (w', calls) \<Rightarrow>
                  w' = all_called cbs d w \<and> map fst calls = map cb_id cbs)"
proof (cases "cbs = []")
  case True
  then show ?thesis
    by (simp add: emit_def get_property_own_name [OF assms] all_called_def)
next
  case False
  obtain w' calls where run: "forEach_callback cbs d w = (w', calls)"
    by (cases "forEach_callback cbs d w")
  have "w' = all_called cbs d w" "map fst calls = map cb_id cbs"
    using forEach_callback_state [of cbs d w] forEach_callback_ids [of cbs d w] run
    by simp_all
  with False run show ?thesis
    by (simp add: subscribe_all_own_name [OF assms] emit_def get_property_own_name [OF assms])
qed

lemma emit_fifo_example:
  "subscribe_all Map.empty ''transcription''
     [logging_callback 1, throwing_callback 2, logging_callback 3]
     = Inr [''transcription'' \<mapsto> [logging_callback 1, throwing_callback 2, logging_callback 3]]
   \<and> emit [''transcription'' \<mapsto> [logging_callback 1, throwing_callback 2, logging_callback 3]]
        ''transcription'' ''hello'' []
       = Inr ([1, 2, 3], [(1, False), (2, True), (3, False)])"
  by (simp add: on_def emit_def get_property_def Object_prototype_def logging_callback_def
      throwing_callback_def)

text \<open>
  C8. The claim is for every event name. At the name \<open>constructor\<close>, which the
  fresh \<open>events\<close> object inherits, \<open>on\<close> raises a \<open>TypeError\<close> and stores nothing,
  so no list of subscribers can be registered, and \<open>emit\<close> raises a \<open>TypeError\<close>
  instead of delivering.
\<close>

theorem emitter_raises_at_inherited_name:
  "on Map.empty ''constructor'' (logging_callback 1) = Inl TypeError
   \<and> subscribe_all Map.empty ''constructor''
        [logging_callback 1, throwing_callback 2, logging_callback 3] = Inl TypeError
   \<and> emit (Map.empty :: (string, nat list) emitter) ''constructor'' ''hello'' []
       = Inl TypeError"
  by (simp add: on_def emit_def get_property_def Object_prototype_def)

subsection \<open>Audio level\<close>

lemma sum_squares_acc_nonneg:
  "0 \<le> a \<Longrightarrow> 0 \<le> foldl (\<lambda>s x. s + real (unat (x::8 word)) * real (unat x)) a xs"
  by (induction xs arbitrary: a) simp_all

lemma getAudioLevel_range: "0 \<le> getAudioLevel a \<and> getAudioLevel a \<le> 1"
proof (cases a)
  case None
  then show ?thesis by (simp add: getAudioLevel_def)
next
  case (Some xs)
  have "0 \<le> sum_squares xs"
    unfolding sum_squares_def by (rule sum_squares_acc_nonneg) simp
  then have "0 \<le> sqrt (sum_squares xs / real (length xs)) * 10"
    by simp
  with Some show ?thesis
    by (simp add: getAudioLevel_def Let_def)
qed

text \<open>
  C9. \<open>getAudioLevel\<close> of any byte array, the empty one and null included, lies in
  \<open>[0, 1]\<close>, and so does every level that \<open>updateAudioLevel\<close> emits. Numbers are
  reals here.
\<close>

theorem audioLevel_normalized:
  "0 \<le> getAudioLevel audioData \<and> getAudioLevel audioData \<le> 1 \<and>
   (\<forall>l. RecEmit (AudioLevel l) \<in> set (snd (updateAudioLevel pf this)) \<longrightarrow> 0 \<le> l \<and> l \<le> 1)"
proof -
  have "\<forall>l. RecEmit (AudioLevel l) \<in> set (snd (updateAudioLevel pf this)) \<longrightarrow> 0 \<le> l \<and> l \<le> 1"
    using getAudioLevel_range
    by (auto simp: updateAudioLevel_def Let_def split: option.splits if_splits)
  then show ?thesis using getAudioLevel_range by blast
qed

theorem audioLevel_normalized_witness:
  "RecEmit (AudioLevel 0) \<in> set (snd (updateAudioLevel silent_platform monitoring_recorder))
   \<and> getAudioLevel (Some [0, 0, 0, 0]) = 0"
  using audioLevel_normalized [of "Some [0, 0, 0, 0]" silent_platform monitoring_recorder]
  by (simp add: updateAudioLevel_def getByteFrequencyData_def getAudioLevel_def sum_squares_def
      silent_platform_def example_platform_def monitoring_recorder_def AudioRecorder_new_def
      Let_def)

end
